theory Spec2Isabelle
  imports Complex_Main
begin

section \<open>CUR sample selection (skcosmo/sample_selection/simple_cur.py)\<close>

text \<open>
  The class \<open>CUR\<close> is a greedy selector: it scores every sample of a matrix by the
  squared entries of the leading left singular vectors, lets the generic skeleton
  (\<open>GreedySelector\<close>) pick the best sample, and updates its working copies after each
  pick. Arrays are lists of rows over \<open>real\<close>; the attributes of \<open>self\<close> are a
  record that every method takes and returns; every exception is a value.
\<close>

subsection \<open>Data\<close>

type_synonym matrix = "real list list"

datatype error = IndexError | ValueError | ExternalError

text \<open>\<open>iterated_power\<close> is an integer or the string \<open>'auto'\<close>.\<close>

datatype n_iter = Auto | Iter int

text \<open>\<open>random_state\<close> is \<open>None\<close>, an integer seed, or a \<open>RandomState\<close> instance.\<close>

datatype random_state = RS_None | RS_Int int | RS_Instance

text \<open>\<open>n_samples_to_select\<close> is \<open>None\<close>, an integer or a fraction.\<close>

datatype count_spec = Half | Count int | Fraction real

text \<open>
  The generators that live outside a call: numpy's global generator (used when
  \<open>random_state\<close> is \<open>None\<close>) and the generator object behind a \<open>RandomState\<close>
  instance. Both are mutated by every draw.
\<close>

record 'r rng_world =
  global_rng :: 'r
  instance_rng :: 'r

text \<open>
  The library calls of the module, as parameters: \<open>randomized_svd\<close> (always called
  with \<open>flip_sign=True\<close>; it returns the left factor and the advanced generator),
  the constructor \<open>RandomState(seed)\<close>, and the two orthogonalizers of
  \<open>skcosmo.utils\<close>. The tolerance of \<open>X_orthogonalizer\<close> is optional: one call
  site leaves it to the utility's default.
\<close>

record 'r collaborators =
  randomized_svd :: "'r \<Rightarrow> matrix \<Rightarrow> int \<Rightarrow> n_iter \<Rightarrow> error + (complex list list \<times> 'r)"
  new_RandomState :: "int \<Rightarrow> 'r"
  X_orthogonalizer :: "matrix \<Rightarrow> nat option \<Rightarrow> matrix option \<Rightarrow> real option \<Rightarrow> error + matrix"
  Y_sample_orthogonalizer :: "matrix \<Rightarrow> matrix \<Rightarrow> matrix \<Rightarrow> matrix \<Rightarrow> real \<Rightarrow> error + matrix"

text \<open>
  The constructor arguments as stored: \<open>k\<close>, \<open>iterative\<close>, \<open>iterated_power\<close> and
  \<open>random_state\<close> on the instance, the rest handed to the skeleton's constructor.
\<close>

record config =
  k :: int
  iterative :: bool
  iterated_power :: n_iter
  random_state :: random_state
  n_samples_to_select :: count_spec
  progress_bar :: bool
  score_threshold :: "real option"

text \<open>
  The attributes of a fitted instance; the trailing underscore of \<open>pi_\<close>,
  \<open>eligible_\<close>, \<open>X_selected_\<close>, \<open>y_selected_\<close>, \<open>selected_idx_\<close> and
  \<open>n_selected_\<close> is dropped, and \<open>pi_\<close> is \<open>pi_vec\<close>.
\<close>

record cur_state =
  X_current :: matrix
  y_current :: "matrix option"
  pi_vec :: "real list"
  eligible :: "bool list"
  X_selected :: matrix
  y_selected :: matrix
  selected_idx :: "nat list"
  n_selected :: nat

subsection \<open>Helpers for numpy expressions\<close>

definition bindE :: "error + 'a \<Rightarrow> ('a \<Rightarrow> error + 'b) \<Rightarrow> error + 'b" where
  "bindE m f = (case m of Inl e \<Rightarrow> Inl e | Inr x \<Rightarrow> f x)"

text \<open>The slice \<open>xs[:n]\<close> of Python: a negative bound counts from the end.\<close>

definition slice_to :: "int \<Rightarrow> 'a list \<Rightarrow> 'a list" where
  "slice_to n xs = (if 0 \<le> n then take (nat n) xs else take (nat (int (length xs) + n)) xs)"

text \<open>
  \<open>A.T\<close> on a list of rows; it is the transpose of the array when the matrix has
  at least one row and one column.
\<close>

definition T :: "matrix \<Rightarrow> matrix" where
  "T A = transpose A"

text \<open>\<open>A[mask]\<close>: the rows where the mask is true; the lengths must agree.\<close>

definition mask_select :: "'a list \<Rightarrow> bool list \<Rightarrow> error + 'a list" where
  "mask_select xs msk =
     (if length msk = length xs then Inr (map fst (filter snd (zip xs msk)))
      else Inl IndexError)"

text \<open>Writes the values, in order, at the positions where the mask is true.\<close>

fun scatter :: "'a list \<Rightarrow> bool list \<Rightarrow> 'a list \<Rightarrow> 'a list" where
  "scatter [] ms vs = []"
| "scatter (x # xs) [] vs = x # xs"
| "scatter (x # xs) (True # ms) [] = x # scatter xs ms []"
| "scatter (x # xs) (True # ms) (v # vs) = v # scatter xs ms vs"
| "scatter (x # xs) (False # ms) vs = x # scatter xs ms vs"

text \<open>
  \<open>a[mask] = vals\<close>: the lengths of array and mask must agree; the values fill the
  true positions in order, a single value is broadcast to all of them, and any other
  number of values is a \<open>ValueError\<close>.
\<close>

definition mask_assign :: "'a list \<Rightarrow> bool list \<Rightarrow> 'a list \<Rightarrow> error + 'a list" where
  "mask_assign xs msk vals =
     (if length msk \<noteq> length xs then Inl IndexError
      else if length vals = length (filter id msk) then Inr (scatter xs msk vals)
      else if length vals = 1 then Inr (map (\<lambda>(x, m). if m then hd vals else x) (zip xs msk))
      else Inl ValueError)"

text \<open>\<open>a[i] = v\<close> for a non-negative index.\<close>

definition index_assign :: "'a list \<Rightarrow> nat \<Rightarrow> 'a \<Rightarrow> error + 'a list" where
  "index_assign xs i v = (if i < length xs then Inr (xs[i := v]) else Inl IndexError)"

subsection \<open>Random state\<close>

text \<open>
  \<open>check_random_state\<close>: \<open>None\<close> is numpy's global generator, an integer makes a new
  generator from that seed, an instance is used as it is. \<open>RandomState(seed)\<close>
  accepts the seeds from \<open>0\<close> to \<open>2**32 - 1\<close> and raises a \<open>ValueError\<close> for any
  other integer.
\<close>

definition check_random_state ::
  "'r collaborators \<Rightarrow> random_state \<Rightarrow> 'r rng_world \<Rightarrow> error + 'r" where
  "check_random_state ext rs w =
     (case rs of RS_None \<Rightarrow> Inr (global_rng w)
               | RS_Int seed \<Rightarrow> if 0 \<le> seed \<and> seed < 2 ^ 32
                               then Inr (new_RandomState ext seed) else Inl ValueError
               | RS_Instance \<Rightarrow> Inr (instance_rng w))"

text \<open>Where the advanced generator lives after the draw.\<close>

definition put_random_state :: "random_state \<Rightarrow> 'r \<Rightarrow> 'r rng_world \<Rightarrow> 'r rng_world" where
  "put_random_state rs r w =
     (case rs of RS_None \<Rightarrow> w\<lparr>global_rng := r\<rparr>
               | RS_Int seed \<Rightarrow> w
               | RS_Instance \<Rightarrow> w\<lparr>instance_rng := r\<rparr>)"

subsection \<open>Importance score\<close>

text \<open>\<open>(np.real(U[:, :k]) ** 2.0).sum(axis=1)\<close> for one row of \<open>U\<close>.\<close>

definition row_score :: "int \<Rightarrow> complex list \<Rightarrow> real" where
  "row_score kk row = sum_list (map (\<lambda>z. (Re z)\<^sup>2) (slice_to kk row))"

text \<open>\<open>CUR._compute_pi\<close>; the argument \<open>y\<close> is not used by the body.\<close>

definition compute_pi ::
  "'r collaborators \<Rightarrow> config \<Rightarrow> 'r rng_world \<Rightarrow> matrix \<Rightarrow> matrix option
     \<Rightarrow> error + (real list \<times> 'r rng_world)" where
  "compute_pi ext cfg w X y =
     bindE (check_random_state ext (random_state cfg) w)
       (\<lambda>rs. bindE (randomized_svd ext rs X (k cfg) (iterated_power cfg))
         (\<lambda>(U, rs'). Inr (map (row_score (k cfg)) U,
                           put_random_state (random_state cfg) rs' w)))"

subsection \<open>Constructor\<close>

text \<open>
  Modelled from the spec: \<open>GreedySelector.__init__\<close> (module \<open>_greedy\<close>, not among the
  sources) keeps the count, the progress flag and the score threshold it is given.

  \<open>CUR.__init__\<close> stores \<open>k\<close>, \<open>iterative\<close>, \<open>iterated_power\<close> and \<open>random_state\<close>
  and calls the skeleton's constructor with \<open>score_thresh_to_select=tolerance\<close>; its
  own argument \<open>score_thresh_to_select\<close> is not used.
\<close>

definition CUR_init ::
  "count_spec \<Rightarrow> real option \<Rightarrow> bool \<Rightarrow> int \<Rightarrow> real \<Rightarrow> n_iter \<Rightarrow> random_state \<Rightarrow> bool \<Rightarrow> config" where
  "CUR_init n_samples_to_select' score_thresh_to_select iterative' k' tolerance
            iterated_power' random_state' progress_bar' =
     \<lparr>k = k', iterative = iterative', iterated_power = iterated_power',
      random_state = random_state', n_samples_to_select = n_samples_to_select',
      progress_bar = progress_bar', score_threshold = Some tolerance\<rparr>"

subsection \<open>Hooks of the skeleton\<close>

text \<open>
  Modelled from the spec: \<open>GreedySelector._init_greedy_search\<close> (not among the
  sources) starts the bookkeeping the skeleton owns: every sample eligible, nothing
  selected.
\<close>

definition GreedySelector_init_greedy_search ::
  "matrix \<Rightarrow> matrix option \<Rightarrow> nat \<Rightarrow> cur_state \<Rightarrow> cur_state" where
  "GreedySelector_init_greedy_search X y n_to_select s =
     s\<lparr>eligible := replicate (length X) True, X_selected := [], y_selected := [],
       selected_idx := [], n_selected := 0\<rparr>"

text \<open>
  Modelled from the spec: \<open>GreedySelector._continue_greedy_search\<close> (not among the
  sources) keeps the selections of the earlier stage; the accumulators are lists
  here, so there is nothing to enlarge.
\<close>

definition GreedySelector_continue_greedy_search ::
  "matrix \<Rightarrow> matrix option \<Rightarrow> nat \<Rightarrow> cur_state \<Rightarrow> cur_state" where
  "GreedySelector_continue_greedy_search X y n_to_select s = s"

text \<open>
  Modelled from the spec: \<open>GreedySelector._update_post_selection\<close> (not among the
  sources) appends the selected row (and target row) to the accumulators, appends
  the index, marks the sample as no longer eligible and counts it.
\<close>

definition GreedySelector_update_post_selection ::
  "matrix \<Rightarrow> matrix option \<Rightarrow> nat \<Rightarrow> cur_state \<Rightarrow> error + cur_state" where
  "GreedySelector_update_post_selection X y last_selected s =
     (if last_selected < length X \<and> last_selected < length (eligible s)
         \<and> (case y of None \<Rightarrow> True | Some yy \<Rightarrow> last_selected < length yy)
      then Inr (s\<lparr>X_selected := X_selected s @ [X ! last_selected],
                  y_selected := (case y of None \<Rightarrow> y_selected s
                                   | Some yy \<Rightarrow> y_selected s @ [yy ! last_selected]),
                  selected_idx := selected_idx s @ [last_selected],
                  eligible := (eligible s)[last_selected := False],
                  n_selected := Suc (n_selected s)\<rparr>)
      else Inl IndexError)"

subsection \<open>Methods of CUR\<close>

text \<open>The fixed tolerance \<open>1e-12\<close> of the call sites.\<close>

definition tol12 :: real where
  "tol12 = 1 / 10 ^ 12"

text \<open>
  The guarded call of \<open>Y_sample_orthogonalizer\<close> that both \<open>_continue_greedy_search\<close>
  and \<open>_update_post_selection\<close> make: only when \<open>self.y_current\<close> is not \<open>None\<close>, on
  \<open>self.y_current\<close>, \<open>self.X_current\<close>, \<open>self.y_selected_\<close> and \<open>self.X_selected_\<close>.
\<close>

definition orthogonalize_y :: "'r collaborators \<Rightarrow> cur_state \<Rightarrow> error + matrix option" where
  "orthogonalize_y ext s =
     (case y_current s of
        None \<Rightarrow> Inr None
      | Some yc \<Rightarrow>
          bindE (Y_sample_orthogonalizer ext yc (X_current s) (y_selected s) (X_selected s) tol12)
            (\<lambda>yo. Inr (Some yo)))"

text \<open>\<open>CUR._init_greedy_search\<close>, on values: \<open>copy()\<close> returns an equal array.\<close>

definition init_greedy_search ::
  "'r collaborators \<Rightarrow> config \<Rightarrow> 'r rng_world \<Rightarrow> matrix \<Rightarrow> matrix option \<Rightarrow> nat
     \<Rightarrow> error + (cur_state \<times> 'r rng_world)" where
  "init_greedy_search ext cfg w X y n_to_select =
     (let Xc = X; yc = (case y of Some yy \<Rightarrow> Some yy | None \<Rightarrow> None) in
      bindE (compute_pi ext cfg w Xc yc)
        (\<lambda>(p, w'). Inr (GreedySelector_init_greedy_search X y n_to_select
                          \<lparr>X_current = Xc, y_current = yc, pi_vec = p, eligible = [],
                           X_selected = [], y_selected = [], selected_idx = [],
                           n_selected = 0\<rparr>, w')))"

text \<open>\<open>CUR._continue_greedy_search\<close>.\<close>

definition continue_greedy_search ::
  "'r collaborators \<Rightarrow> config \<Rightarrow> 'r rng_world \<Rightarrow> matrix \<Rightarrow> matrix option \<Rightarrow> nat \<Rightarrow> cur_state
     \<Rightarrow> error + (cur_state \<times> 'r rng_world)" where
  "continue_greedy_search ext cfg w X y n_to_select s =
     bindE (X_orthogonalizer ext (T X) None (Some (T (X_selected s))) None)
       (\<lambda>Xo. let s1 = s\<lparr>X_current := T Xo\<rparr> in
         bindE (orthogonalize_y ext s1)
           (\<lambda>yo. let s2 = s1\<lparr>y_current := yo\<rparr> in
             bindE (compute_pi ext cfg w (X_current s2) (y_current s2))
               (\<lambda>(p, w'). Inr (GreedySelector_continue_greedy_search X y n_to_select
                                 (s2\<lparr>pi_vec := p\<rparr>), w'))))"

text \<open>\<open>CUR.score\<close>: the stored importance, whatever the arguments.\<close>

definition score :: "cur_state \<Rightarrow> matrix \<Rightarrow> matrix option \<Rightarrow> real list" where
  "score s X y = pi_vec s"

text \<open>The \<open>if self.iterative:\<close> block of \<open>_update_post_selection\<close>.\<close>

definition orthogonalize_step ::
  "'r collaborators \<Rightarrow> config \<Rightarrow> 'r rng_world \<Rightarrow> nat \<Rightarrow> cur_state
     \<Rightarrow> error + (cur_state \<times> 'r rng_world)" where
  "orthogonalize_step ext cfg w last_selected s =
     bindE (orthogonalize_y ext s)
       (\<lambda>yo. let s1 = s\<lparr>y_current := yo\<rparr> in
         bindE (X_orthogonalizer ext (T (X_current s1)) (Some last_selected) None (Some tol12))
           (\<lambda>Xo. let s2 = s1\<lparr>X_current := T Xo\<rparr> in
             bindE (mask_select (X_current s2) (eligible s2))
               (\<lambda>Xe. bindE (case y_current s2 of
                               None \<Rightarrow> Inr None
                             | Some yc \<Rightarrow> bindE (mask_select yc (eligible s2)) (\<lambda>ye. Inr (Some ye)))
                 (\<lambda>ye. bindE (compute_pi ext cfg w Xe ye)
                   (\<lambda>(p, w'). bindE (mask_assign (pi_vec s2) (eligible s2) p)
                     (\<lambda>p'. Inr (s2\<lparr>pi_vec := p'\<rparr>, w')))))))"

text \<open>\<open>CUR._update_post_selection\<close>.\<close>

definition update_post_selection ::
  "'r collaborators \<Rightarrow> config \<Rightarrow> 'r rng_world \<Rightarrow> matrix \<Rightarrow> matrix option \<Rightarrow> nat \<Rightarrow> cur_state
     \<Rightarrow> error + (cur_state \<times> 'r rng_world)" where
  "update_post_selection ext cfg w X y last_selected s =
     bindE (GreedySelector_update_post_selection X y last_selected s)
       (\<lambda>s1. bindE (if iterative cfg then orthogonalize_step ext cfg w last_selected s1
                     else Inr (s1, w))
         (\<lambda>(s2, w'). bindE (index_assign (pi_vec s2) last_selected 0)
           (\<lambda>p. Inr (s2\<lparr>pi_vec := p\<rparr>, w'))))"

subsection \<open>The selection loop\<close>

text \<open>
  Modelled from the spec: the pick of the skeleton (not among the sources), the
  best-scoring eligible sample; the first one on a tie.
\<close>

definition best_eligible :: "real list \<Rightarrow> bool list \<Rightarrow> nat option" where
  "best_eligible scores elig =
     (case filter (\<lambda>i. elig ! i) [0..<min (length scores) (length elig)] of
        [] \<Rightarrow> None
      | i # rest \<Rightarrow> Some (fold (\<lambda>j b. if scores ! b < scores ! j then j else b) rest i))"

text \<open>
  Modelled from the spec: the loop of the skeleton's \<open>fit\<close> (not among the sources).
  Each round asks the scoring callback, picks, stops when a threshold is set and the
  best remaining score is at or below it, and otherwise notifies the selector; it
  ends when the requested number of rounds is done or nothing is eligible.
\<close>

fun greedy_loop ::
  "'r collaborators \<Rightarrow> config \<Rightarrow> matrix \<Rightarrow> matrix option \<Rightarrow> nat \<Rightarrow> cur_state \<times> 'r rng_world
     \<Rightarrow> error + (cur_state \<times> 'r rng_world)" where
  "greedy_loop ext cfg X y 0 sw = Inr sw"
| "greedy_loop ext cfg X y (Suc n) sw =
     (case best_eligible (score (fst sw) X y) (eligible (fst sw)) of
        None \<Rightarrow> Inr sw
      | Some i \<Rightarrow>
          if (case score_threshold cfg of None \<Rightarrow> False
                                        | Some t \<Rightarrow> score (fst sw) X y ! i \<le> t)
          then Inr sw
          else (case update_post_selection ext cfg (snd sw) X y i (fst sw) of
                  Inl e \<Rightarrow> Inl e
                | Inr sw' \<Rightarrow> greedy_loop ext cfg X y n sw'))"

text \<open>Modelled from the spec: a fresh fit is the initialization followed by the loop.\<close>

definition fit ::
  "'r collaborators \<Rightarrow> config \<Rightarrow> 'r rng_world \<Rightarrow> matrix \<Rightarrow> matrix option \<Rightarrow> nat
     \<Rightarrow> error + (cur_state \<times> 'r rng_world)" where
  "fit ext cfg w X y n_to_select =
     bindE (init_greedy_search ext cfg w X y n_to_select) (greedy_loop ext cfg X y n_to_select)"

text \<open>
  Modelled from the spec: a continued fit is the continuation followed by the loop
  for the samples still to select.
\<close>

definition fit_continue ::
  "'r collaborators \<Rightarrow> config \<Rightarrow> 'r rng_world \<Rightarrow> matrix \<Rightarrow> matrix option \<Rightarrow> nat \<Rightarrow> cur_state
     \<Rightarrow> error + (cur_state \<times> 'r rng_world)" where
  "fit_continue ext cfg w X y n_to_select s =
     bindE (continue_greedy_search ext cfg w X y n_to_select s)
       (greedy_loop ext cfg X y (n_to_select - n_selected s))"

subsection \<open>Sample collaborators\<close>

text \<open>
  One concrete set of library calls, on which the methods above can be run. The
  generator is a counter. For a matrix with orthonormal columns the decomposition
  returns columns of the matrix itself, beginning at the column the generator
  points to: each of them is a left singular vector, and which ones lead is not
  determined, since the singular values are equal. For a matrix of zeros it returns
  unit coordinate vectors, beginning at the coordinate the generator points to:
  every orthonormal family is a left factor of the zero matrix. For other matrices
  the result only has the shape of a left factor. It returns no column for a
  request of none, as the library routine does where it does not validate its
  arguments.
\<close>

definition sample_svd ::
  "nat \<Rightarrow> matrix \<Rightarrow> int \<Rightarrow> n_iter \<Rightarrow> error + (complex list list \<times> nat)" where
  "sample_svd r X n_components it =
     (case X of
        [] \<Rightarrow> Inl ExternalError
      | row # _ \<Rightarrow>
          if row = [] \<or> \<not> list_all (\<lambda>rw. length rw = length row) X then Inl ExternalError
          else if list_all (list_all (\<lambda>x. x = 0)) X
          then Inr (map (\<lambda>i. map (\<lambda>j. if i = (r + j) mod length X then 1 else 0)
                                  [0..<min (nat n_components) (min (length X) (length row))])
                        [0..<length X],
                    Suc r)
          else Inr (map (\<lambda>rw. map (\<lambda>j. complex_of_real (rw ! ((r + j) mod length row)))
                                  [0..<min (nat n_components) (length row)]) X,
                    Suc r))"

text \<open>
  The same decomposition behind a validation of its arguments, as the library
  routine has it in other versions: a request for no or a negative number of
  components is refused.
\<close>

definition strict_svd ::
  "nat \<Rightarrow> matrix \<Rightarrow> int \<Rightarrow> n_iter \<Rightarrow> error + (complex list list \<times> nat)" where
  "strict_svd r X n_components it =
     (if n_components \<le> 0 then Inl ExternalError else sample_svd r X n_components it)"

definition dot :: "real list \<Rightarrow> real list \<Rightarrow> real" where
  "dot u v = sum_list (map (\<lambda>(a, b). a * b) (zip u v))"

text \<open>Removes from every row its component along \<open>v\<close>, unless \<open>v\<close> is within the tolerance of zero.\<close>

definition project_out :: "real \<Rightarrow> real list \<Rightarrow> matrix \<Rightarrow> matrix" where
  "project_out tol v A =
     (if dot v v < tol * tol then A
      else map (\<lambda>a. map (\<lambda>(x, c). x - dot a v / dot v v * c) (zip a v)) A)"

text \<open>
  The orthogonalizer works on the transposed matrix, as its callers pass it: against
  the column \<open>c\<close> of \<open>x1\<close> itself, or against the columns of \<open>x2\<close> one after the other.
  Arguments whose shapes do not fit, so that the result would not have the shape of
  \<open>x1\<close>, are a \<open>ValueError\<close>.
\<close>

definition sample_X_orthogonalizer ::
  "matrix \<Rightarrow> nat option \<Rightarrow> matrix option \<Rightarrow> real option \<Rightarrow> error + matrix" where
  "sample_X_orthogonalizer x1 c x2 tol =
     (let t = (case tol of None \<Rightarrow> tol12 | Some t' \<Rightarrow> t') in
      bindE (case x2 of
               Some ref \<Rightarrow> Inr (T (fold (project_out t) (T ref) (T x1)))
             | None \<Rightarrow>
                 (case c of
                    None \<Rightarrow> Inl ValueError
                  | Some j \<Rightarrow> if j < length (T x1) then Inr (T (project_out t (T x1 ! j) (T x1)))
                              else Inl IndexError))
        (\<lambda>R. if map length R = map length x1 then Inr R else Inl ValueError))"

text \<open>
  The target orthogonalizer subtracts the prediction of the least-squares fit of the
  reference targets on the reference rows. The sample covers no reference row
  (nothing to subtract) and one reference row \<open>r\<close>, where the fit of smallest norm
  predicts \<open>(x \<cdot> r / r \<cdot> r) * y_ref\<close> for a row \<open>x\<close>.
\<close>

definition sample_Y_sample_orthogonalizer ::
  "matrix \<Rightarrow> matrix \<Rightarrow> matrix \<Rightarrow> matrix \<Rightarrow> real \<Rightarrow> error + matrix" where
  "sample_Y_sample_orthogonalizer y X y_ref X_ref tol =
     (if length y \<noteq> length X then Inl ValueError
      else case (X_ref, y_ref) of
        ([], []) \<Rightarrow> Inr y
      | ([r], [yr]) \<Rightarrow>
          Inr (map (\<lambda>(yrow, x). map (\<lambda>(v, t). v - (if dot r r < tol * tol then 0 else dot x r / dot r r) * t)
                                     (zip yrow yr))
                   (zip y X))
      | _ \<Rightarrow> Inl ExternalError)"

definition sample_ext :: "nat collaborators" where
  "sample_ext =
     \<lparr>randomized_svd = sample_svd, new_RandomState = nat,
      X_orthogonalizer = sample_X_orthogonalizer,
      Y_sample_orthogonalizer = sample_Y_sample_orthogonalizer\<rparr>"

definition strict_ext :: "nat collaborators" where
  "strict_ext = sample_ext\<lparr>randomized_svd := strict_svd\<rparr>"

text \<open>The defaults of the constructor, with no generator given.\<close>

definition default_cfg :: config where
  "default_cfg = CUR_init Half None True 1 tol12 Auto RS_None False"

definition world0 :: "nat rng_world" where
  "world0 = \<lparr>global_rng = 0, instance_rng = 0\<rparr>"

subsection \<open>A run as a sequence of picks\<close>

text \<open>
  The post-selection updates for a list of picks, whoever chose them; the loop of
  the skeleton is one such sequence.
\<close>

fun updates ::
  "'r collaborators \<Rightarrow> config \<Rightarrow> matrix \<Rightarrow> matrix option \<Rightarrow> nat list \<Rightarrow> cur_state \<times> 'r rng_world
     \<Rightarrow> error + (cur_state \<times> 'r rng_world)" where
  "updates ext cfg X y [] sw = Inr sw"
| "updates ext cfg X y (i # picks) sw =
     (case update_post_selection ext cfg (snd sw) X y i (fst sw) of
        Inl e \<Rightarrow> Inl e
      | Inr sw' \<Rightarrow> updates ext cfg X y picks sw')"

subsection \<open>Arrays as objects\<close>

text \<open>
  For the question whether the working matrix shares memory with the caller's
  array, arrays are objects in a store: an address below \<open>next_free\<close> is a live
  array, \<open>copy()\<close> allocates a new one with the same entries.
\<close>

record store =
  arrays :: "nat \<Rightarrow> matrix"
  next_free :: nat

definition np_copy :: "store \<Rightarrow> nat \<Rightarrow> nat \<times> store" where
  "np_copy st a =
     (next_free st,
      st\<lparr>arrays := (arrays st)(next_free st := arrays st a), next_free := Suc (next_free st)\<rparr>)"

text \<open>
  \<open>CUR._init_greedy_search\<close> on references: \<open>X\<close> and \<open>y\<close> are addresses of the
  caller's arrays; the result holds the addresses bound to \<open>self.X_current\<close> and
  \<open>self.y_current\<close>, the store, and the attributes read through the store.
\<close>

definition init_greedy_search_refs ::
  "'r collaborators \<Rightarrow> config \<Rightarrow> 'r rng_world \<Rightarrow> store \<Rightarrow> nat \<Rightarrow> nat option \<Rightarrow> nat
     \<Rightarrow> error + (nat \<times> nat option \<times> store \<times> cur_state \<times> 'r rng_world)" where
  "init_greedy_search_refs ext cfg w st X y n_to_select =
     (let (xc, st1) = np_copy st X;
          (yc, st2) = (case y of
                         Some ya \<Rightarrow> (let (a, st') = np_copy st1 ya in (Some a, st'))
                       | None \<Rightarrow> (None, st1))
      in bindE (compute_pi ext cfg w (arrays st2 xc) (map_option (arrays st2) yc))
           (\<lambda>(p, w'). Inr (xc, yc, st2,
                            GreedySelector_init_greedy_search (arrays st2 X)
                              (map_option (arrays st2) y) n_to_select
                              \<lparr>X_current = arrays st2 xc, y_current = map_option (arrays st2) yc,
                               pi_vec = p, eligible = [], X_selected = [], y_selected = [],
                               selected_idx = [], n_selected = 0\<rparr>, w')))"

subsection \<open>What the library calls are relied on for\<close>

text \<open>The decomposition returns one row of \<open>U\<close> for every row of its input.\<close>

definition svd_keeps_rows :: "'r collaborators \<Rightarrow> bool" where
  "svd_keeps_rows ext \<longleftrightarrow>
     (\<forall>r X n_components it U r'.
        randomized_svd ext r X n_components it = Inr (U, r') \<longrightarrow> length U = length X)"

text \<open>The orthogonalizer returns a matrix with the row lengths of \<open>x1\<close>.\<close>

definition orthogonalizer_keeps_shape :: "'r collaborators \<Rightarrow> bool" where
  "orthogonalizer_keeps_shape ext \<longleftrightarrow>
     (\<forall>x1 c x2 tol Xo.
        X_orthogonalizer ext x1 c x2 tol = Inr Xo \<longrightarrow> map length Xo = map length x1)"

text \<open>A matrix with \<open>m\<close> entries in every row.\<close>

definition rectangular :: "nat \<Rightarrow> matrix \<Rightarrow> bool" where
  "rectangular m X \<longleftrightarrow> list_all (\<lambda>row. length row = m) X"

text \<open>Two instances that differ at most in the working target and the selected targets.\<close>

definition same_but_targets :: "cur_state \<Rightarrow> cur_state \<Rightarrow> bool" where
  "same_but_targets s1 s2 \<longleftrightarrow>
     X_current s1 = X_current s2 \<and> pi_vec s1 = pi_vec s2 \<and> eligible s1 = eligible s2
     \<and> X_selected s1 = X_selected s2 \<and> selected_idx s1 = selected_idx s2
     \<and> n_selected s1 = n_selected s2"

subsection \<open>Sample inputs\<close>

text \<open>
  Three samples with two features, a target with one property, and the attributes
  after the initialization and after the first and the second pick of an iterative
  run on them.
\<close>

definition X3 :: matrix where
  "X3 = [[1, 0], [0, 1], [0, 0]]"

definition y3 :: matrix where
  "y3 = [[3], [4], [5]]"

definition state0 :: cur_state where
  "state0 = \<lparr>X_current = X3, y_current = None, pi_vec = [1, 0, 0],
             eligible = [True, True, True], X_selected = [], y_selected = [],
             selected_idx = [], n_selected = 0\<rparr>"

definition state1 :: cur_state where
  "state1 = \<lparr>X_current = [[0, 0], [0, 1], [0, 0]], y_current = None,
         pi_vec = [0, 1, 0], eligible = [False, True, True],
         X_selected = [[1, 0]], y_selected = [], selected_idx = [0],
         n_selected = 1\<rparr>"

definition state2 :: cur_state where
  "state2 = \<lparr>X_current = [[0, 0], [0, 0], [0, 0]], y_current = None,
         pi_vec = [0, 0, 1], eligible = [False, False, True],
         X_selected = [[1, 0], [0, 1]], y_selected = [],
         selected_idx = [0, 1], n_selected = 2\<rparr>"

text \<open>
  The attributes after a first stage without iteration that was given the target
  and picked one sample.
\<close>

definition state1_plain :: cur_state where
  "state1_plain = \<lparr>X_current = X3, y_current = Some y3, pi_vec = [0, 0, 0],
         eligible = [False, True, True], X_selected = [[1, 0]], y_selected = [[3]],
         selected_idx = [0], n_selected = 1\<rparr>"

definition I2 :: matrix where
  "I2 = [[1, 0], [0, 1]]"

subsection \<open>A result placed in a given generator state\<close>

text \<open>For comparing runs that start from different states of the outside generators.\<close>

definition in_world :: "'w \<Rightarrow> error + ('a \<times> 'w) \<Rightarrow> error + ('a \<times> 'w)" where
  "in_world w r = map_sum id (\<lambda>sw. (fst sw, w)) r"

text \<open>A store holding the sample matrix at address 0 and the sample target at address 1.\<close>

definition store0 :: store where
  "store0 = \<lparr>arrays = (\<lambda>a. [])(0 := X3, 1 := y3), next_free = 2\<rparr>"

section \<open>Properties\<close>

subsection \<open>Importance score\<close>

lemma row_score_nonneg: "0 \<le> row_score kk row"
  unfolding row_score_def by (rule sum_list_nonneg) auto

lemma sample_pi:
  "compute_pi sample_ext default_cfg world0 [[1, 0], [0, 1]] None
     = Inr ([1, 0], world0\<lparr>global_rng := 1\<rparr>)"
  by (simp add: compute_pi_def bindE_def sample_ext_def default_cfg_def CUR_init_def world0_def
        check_random_state_def put_random_state_def sample_svd_def row_score_def slice_to_def)

text \<open>
  C5: whenever \<open>_compute_pi\<close> returns, the seed gave a generator, the decomposition
  called with it returned some \<open>U\<close>, and the score of each row is the sum, over the
  entries of that row of \<open>U[:, :k]\<close>, of the square of the real part; so there is
  one score per row of \<open>U\<close> and none is negative. This holds for every input matrix
  and every \<open>k\<close>.
\<close>

theorem compute_pi_scores:
  assumes "compute_pi ext cfg w X y = Inr (p, w')"
  shows "\<exists>rs U r'. check_random_state ext (random_state cfg) w = Inr rs
           \<and> randomized_svd ext rs X (k cfg) (iterated_power cfg) = Inr (U, r')
           \<and> p = map (\<lambda>row. sum_list (map (\<lambda>z. (Re z)\<^sup>2) (slice_to (k cfg) row))) U
           \<and> length p = length U
           \<and> (\<forall>x \<in> set p. 0 \<le> x)"
proof -
  from assms obtain rs U r' where
    rs: "check_random_state ext (random_state cfg) w = Inr rs"
    and svd: "randomized_svd ext rs X (k cfg) (iterated_power cfg) = Inr (U, r')"
    and p: "p = map (row_score (k cfg)) U"
    by (auto simp: compute_pi_def bindE_def split: sum.splits prod.splits)
  have "\<forall>x \<in> set p. 0 \<le> x"
    using p row_score_nonneg by auto
  with rs svd p show ?thesis
    by (auto simp: row_score_def)
qed

theorem compute_pi_scores_witness:
  "compute_pi sample_ext default_cfg world0 [[1, 0], [0, 1]] None
     = Inr ([1, 0], world0\<lparr>global_rng := 1\<rparr>)
   \<and> (\<exists>rs U r'. check_random_state sample_ext (random_state default_cfg) world0 = Inr rs
           \<and> randomized_svd sample_ext rs [[1, 0], [0, 1]] (k default_cfg)
                (iterated_power default_cfg) = Inr (U, r')
           \<and> [1, 0] = map (\<lambda>row. sum_list (map (\<lambda>z. (Re z)\<^sup>2) (slice_to (k default_cfg) row))) U
           \<and> length [1::real, 0] = length U
           \<and> (\<forall>x \<in> set [1::real, 0]. 0 \<le> x))"
  using compute_pi_scores [OF sample_pi] sample_pi by blast

subsection \<open>Evaluation of the sample runs\<close>

lemmas run_defs =
  compute_pi_def bindE_def sample_ext_def default_cfg_def CUR_init_def world0_def
  check_random_state_def put_random_state_def sample_svd_def row_score_def slice_to_def
  init_greedy_search_def GreedySelector_init_greedy_search_def
  GreedySelector_update_post_selection_def update_post_selection_def orthogonalize_step_def
  orthogonalize_y_def sample_X_orthogonalizer_def sample_Y_sample_orthogonalizer_def
  project_out_def dot_def T_def mask_select_def mask_assign_def index_assign_def tol12_def
  continue_greedy_search_def GreedySelector_continue_greedy_search_def score_def
  best_eligible_def fit_def fit_continue_def X3_def y3_def

lemma sample_init:
  "init_greedy_search sample_ext default_cfg world0 X3 None 2
     = Inr (state0, world0\<lparr>global_rng := 1\<rparr>)"
  by (simp add: run_defs state0_def)

lemma sample_update1:
  "update_post_selection sample_ext default_cfg (world0\<lparr>global_rng := 1\<rparr>) X3 None 0 state0
     = Inr (state1, world0\<lparr>global_rng := 2\<rparr>)"
  by (simp add: run_defs state0_def state1_def)

lemma sample_update2:
  "update_post_selection sample_ext default_cfg (world0\<lparr>global_rng := 2\<rparr>) X3 None 1 state1
     = Inr (state2, world0\<lparr>global_rng := 3\<rparr>)"
  by (simp add: run_defs state1_def state2_def)

lemma sample_updates:
  "updates sample_ext default_cfg X3 None [1] (state1, world0\<lparr>global_rng := 2\<rparr>)
     = Inr (state2, world0\<lparr>global_rng := 3\<rparr>)"
  using sample_update2 by simp

lemma sample_loop:
  "greedy_loop sample_ext default_cfg X3 None 1 (state1, world0\<lparr>global_rng := 2\<rparr>)
     = Inr (state2, world0\<lparr>global_rng := 3\<rparr>)"
proof -
  have b: "best_eligible (pi_vec state1) (eligible state1) = Some 1"
    by (simp add: best_eligible_def state1_def)
  have t: "score_threshold default_cfg = Some tol12"
    by (simp add: default_cfg_def CUR_init_def)
  have p: "\<not> pi_vec state1 ! 1 \<le> tol12"
    by (simp add: state1_def tol12_def)
  show ?thesis
    using b t p sample_update2 by (simp add: score_def)
qed

lemma sample_update_plain:
  "update_post_selection sample_ext (default_cfg\<lparr>iterative := False\<rparr>)
       (world0\<lparr>global_rng := 1\<rparr>) X3 None 0 state0
     = Inr (state0\<lparr>pi_vec := [0, 0, 0], eligible := [False, True, True],
               X_selected := [[1, 0]], selected_idx := [0], n_selected := 1\<rparr>,
            world0\<lparr>global_rng := 1\<rparr>)"
  by (simp add: run_defs state0_def)

lemma plain_cfg: "\<not> iterative (default_cfg\<lparr>iterative := False\<rparr>)"
  by simp

subsection \<open>The post-selection update\<close>

lemma bindE_Inr:
  "bindE m f = Inr z \<longleftrightarrow> (\<exists>x. m = Inr x \<and> f x = Inr z)"
  by (cases m) (simp_all add: bindE_def)

lemma length_scatter: "length (scatter xs ms vs) = length xs"
  by (induction xs ms vs rule: scatter.induct) simp_all

lemma scatter_unmasked:
  "i < length xs \<Longrightarrow> i < length ms \<Longrightarrow> \<not> ms ! i \<Longrightarrow> scatter xs ms vs ! i = xs ! i"
proof (induction xs ms vs arbitrary: i rule: scatter.induct)
  case (3 x xs ms)
  then show ?case by (cases i) simp_all
next
  case (4 x xs ms v vs)
  then show ?case by (cases i) simp_all
next
  case (5 x xs ms vs)
  then show ?case by (cases i) simp_all
qed simp_all

lemma mask_assign_length:
  "mask_assign xs msk vals = Inr xs' \<Longrightarrow> length xs' = length xs"
  by (auto simp: mask_assign_def length_scatter split: if_splits)

lemma mask_assign_unmasked:
  assumes "mask_assign xs msk vals = Inr xs'" "i < length xs" "\<not> msk ! i"
  shows "xs' ! i = xs ! i"
proof -
  from assms(1) have len: "length msk = length xs"
    by (auto simp: mask_assign_def split: if_splits)
  from assms(1) consider "xs' = scatter xs msk vals"
    | "xs' = map (\<lambda>(x, m). if m then hd vals else x) (zip xs msk)"
    by (auto simp: mask_assign_def split: if_splits)
  then show ?thesis
  proof cases
    case 1
    then show ?thesis using assms(2,3) len by (simp add: scatter_unmasked)
  next
    case 2
    then show ?thesis using assms(2,3) len by simp
  qed
qed

lemma compute_pi_ignores_y: "compute_pi ext cfg w X y = compute_pi ext cfg w X None"
  by (simp add: compute_pi_def)

lemma orthogonalize_step_Inr:
  assumes "orthogonalize_step ext cfg w last_selected s = Inr (s', w')"
  shows "\<exists>yo Xo Xe p.
     orthogonalize_y ext s = Inr yo
     \<and> X_orthogonalizer ext (T (X_current s)) (Some last_selected) None (Some tol12) = Inr Xo
     \<and> mask_select (T Xo) (eligible s) = Inr Xe
     \<and> compute_pi ext cfg w Xe None = Inr (p, w')
     \<and> mask_assign (pi_vec s) (eligible s) p = Inr (pi_vec s')
     \<and> s' = s\<lparr>y_current := yo, X_current := T Xo, pi_vec := pi_vec s'\<rparr>"
proof -
  from assms obtain yo Xo Xe ye p p' where
    1: "orthogonalize_y ext s = Inr yo"
    and 2: "X_orthogonalizer ext (T (X_current s)) (Some last_selected) None (Some tol12) = Inr Xo"
    and 3: "mask_select (T Xo) (eligible s) = Inr Xe"
    and 4: "compute_pi ext cfg w Xe ye = Inr (p, w')"
    and 5: "mask_assign (pi_vec s) (eligible s) p = Inr p'"
    and 6: "s' = s\<lparr>y_current := yo, X_current := T Xo, pi_vec := p'\<rparr>"
    unfolding orthogonalize_step_def
    by (auto simp: bindE_Inr Let_def split: prod.splits)
  from 4 have c4: "compute_pi ext cfg w Xe None = Inr (p, w')"
    using compute_pi_ignores_y [of ext cfg w Xe ye] by simp
  from 6 have "pi_vec s' = p'" by simp
  with 1 2 3 c4 5 6 show ?thesis by auto
qed

lemma update_post_selection_Inr:
  assumes "update_post_selection ext cfg w X y last_selected s = Inr (s', w')"
  shows "\<exists>s1 s2.
     GreedySelector_update_post_selection X y last_selected s = Inr s1
     \<and> (if iterative cfg then orthogonalize_step ext cfg w last_selected s1 = Inr (s2, w')
         else s2 = s1 \<and> w' = w)
     \<and> last_selected < length (pi_vec s2)
     \<and> s' = s2\<lparr>pi_vec := (pi_vec s2)[last_selected := 0]\<rparr>"
proof -
  from assms obtain s1 s2 where
    1: "GreedySelector_update_post_selection X y last_selected s = Inr s1"
    and 2: "(if iterative cfg then orthogonalize_step ext cfg w last_selected s1 else Inr (s1, w))
              = Inr (s2, w')"
    and 3: "bindE (index_assign (pi_vec s2) last_selected 0) (\<lambda>p. Inr (s2\<lparr>pi_vec := p\<rparr>, w'))
              = Inr (s', w')"
    unfolding update_post_selection_def
    by (auto simp: bindE_Inr split: prod.splits)
  from 3 have 4: "last_selected < length (pi_vec s2)"
    and 5: "s' = s2\<lparr>pi_vec := (pi_vec s2)[last_selected := 0]\<rparr>"
    by (auto simp: bindE_Inr index_assign_def split: if_splits)
  from 2 have "if iterative cfg then orthogonalize_step ext cfg w last_selected s1 = Inr (s2, w')
         else s2 = s1 \<and> w' = w"
    by (auto split: if_splits)
  with 1 4 5 show ?thesis by blast
qed

lemma GreedySelector_update_Inr:
  assumes "GreedySelector_update_post_selection X y last_selected s = Inr s1"
  shows "last_selected < length (eligible s)
     \<and> eligible s1 = (eligible s)[last_selected := False]
     \<and> X_current s1 = X_current s \<and> y_current s1 = y_current s \<and> pi_vec s1 = pi_vec s
     \<and> selected_idx s1 = selected_idx s @ [last_selected]
     \<and> X_selected s1 = X_selected s @ [X ! last_selected]
     \<and> n_selected s1 = Suc (n_selected s)"
  using assms unfolding GreedySelector_update_post_selection_def
  by (auto split: if_splits)

lemma pick_invariant_step:
  assumes upd: "update_post_selection ext cfg w X y j s = Inr (s', w')"
    and inv: "i < length (eligible s)" "\<not> eligible s ! i" "i < length (pi_vec s)" "pi_vec s ! i = 0"
  shows "i < length (eligible s') \<and> \<not> eligible s' ! i \<and> i < length (pi_vec s') \<and> pi_vec s' ! i = 0"
proof -
  from update_post_selection_Inr [OF upd] obtain s1 s2 where
    g: "GreedySelector_update_post_selection X y j s = Inr s1"
    and st: "if iterative cfg then orthogonalize_step ext cfg w j s1 = Inr (s2, w')
             else s2 = s1 \<and> w' = w"
    and b: "j < length (pi_vec s2)"
    and s': "s' = s2\<lparr>pi_vec := (pi_vec s2)[j := 0]\<rparr>"
    by blast
  note g1 = GreedySelector_update_Inr [OF g]
  have e1: "i < length (eligible s1)" "\<not> eligible s1 ! i" "i < length (pi_vec s1)" "pi_vec s1 ! i = 0"
    using g1 inv by (simp_all add: nth_list_update)
  have e2: "i < length (eligible s2) \<and> \<not> eligible s2 ! i \<and> i < length (pi_vec s2) \<and> pi_vec s2 ! i = 0"
  proof (cases "iterative cfg")
    case False
    with st e1 show ?thesis by simp
  next
    case True
    with st have "orthogonalize_step ext cfg w j s1 = Inr (s2, w')" by simp
    from orthogonalize_step_Inr [OF this] obtain yo Xo p where
      ma: "mask_assign (pi_vec s1) (eligible s1) p = Inr (pi_vec s2)"
      and s2: "s2 = s1\<lparr>y_current := yo, X_current := T Xo, pi_vec := pi_vec s2\<rparr>"
      by blast
    from s2 have el: "eligible s2 = eligible s1"
      by (metis cur_state.select_convs(4) cur_state.surjective cur_state.update_convs(1,2,3))
    from mask_assign_length [OF ma] mask_assign_unmasked [OF ma e1(3) e1(2)] e1 el
    show ?thesis by simp
  qed
  with s' b show ?thesis by (auto simp: nth_list_update)
qed

lemma update_establishes_zero:
  assumes upd: "update_post_selection ext cfg w X y i s = Inr (s', w')"
  shows "i < length (eligible s') \<and> \<not> eligible s' ! i \<and> i < length (pi_vec s') \<and> pi_vec s' ! i = 0"
proof -
  from update_post_selection_Inr [OF upd] obtain s1 s2 where
    g: "GreedySelector_update_post_selection X y i s = Inr s1"
    and st: "if iterative cfg then orthogonalize_step ext cfg w i s1 = Inr (s2, w')
             else s2 = s1 \<and> w' = w"
    and b: "i < length (pi_vec s2)"
    and s': "s' = s2\<lparr>pi_vec := (pi_vec s2)[i := 0]\<rparr>"
    by blast
  note g1 = GreedySelector_update_Inr [OF g]
  have e1: "i < length (eligible s1)" "\<not> eligible s1 ! i"
    using g1 by simp_all
  have "eligible s2 = eligible s1"
  proof (cases "iterative cfg")
    case False
    with st show ?thesis by simp
  next
    case True
    with st have "orthogonalize_step ext cfg w i s1 = Inr (s2, w')" by simp
    from orthogonalize_step_Inr [OF this] obtain yo Xo where
      "s2 = s1\<lparr>y_current := yo, X_current := T Xo, pi_vec := pi_vec s2\<rparr>"
      by blast
    then show ?thesis
      by (metis cur_state.select_convs(4) cur_state.surjective cur_state.update_convs(1,2,3))
  qed
  with e1 s' b show ?thesis by simp
qed

lemma updates_keep_zero:
  assumes "updates ext cfg X y later sw = Inr sw'"
    and "i < length (eligible (fst sw))" "\<not> eligible (fst sw) ! i"
    and "i < length (pi_vec (fst sw))" "pi_vec (fst sw) ! i = 0"
  shows "i < length (eligible (fst sw')) \<and> \<not> eligible (fst sw') ! i
     \<and> i < length (pi_vec (fst sw')) \<and> pi_vec (fst sw') ! i = 0"
  using assms
proof (induction later arbitrary: sw)
  case Nil
  then show ?case by simp
next
  case (Cons j later)
  from Cons.prems(1) obtain sw1 where
    u: "update_post_selection ext cfg (snd sw) X y j (fst sw) = Inr sw1"
    and r: "updates ext cfg X y later sw1 = Inr sw'"
    by (auto split: sum.splits)
  from u have "update_post_selection ext cfg (snd sw) X y j (fst sw) = Inr (fst sw1, snd sw1)"
    by simp
  from pick_invariant_step [OF this Cons.prems(2-5)]
  show ?case using Cons.IH [OF r] by blast
qed

lemma greedy_loop_updates:
  "greedy_loop ext cfg X y n sw = Inr sw'
     \<Longrightarrow> \<exists>picks. length picks \<le> n \<and> updates ext cfg X y picks sw = Inr sw'"
proof (induction n arbitrary: sw)
  case 0
  then have "updates ext cfg X y [] sw = Inr sw'" by simp
  then show ?case by (metis le0 list.size(3))
next
  case (Suc n)
  show ?case
  proof (cases "\<exists>sw1 i. update_post_selection ext cfg (snd sw) X y i (fst sw) = Inr sw1
                  \<and> greedy_loop ext cfg X y n sw1 = Inr sw'")
    case True
    then obtain sw1 i where
      u: "update_post_selection ext cfg (snd sw) X y i (fst sw) = Inr sw1"
      and l: "greedy_loop ext cfg X y n sw1 = Inr sw'"
      by blast
    from Suc.IH [OF l] obtain picks where
      "length picks \<le> n" "updates ext cfg X y picks sw1 = Inr sw'" by blast
    with u have "length (i # picks) \<le> Suc n \<and> updates ext cfg X y (i # picks) sw = Inr sw'"
      by simp
    then show ?thesis by blast
  next
    case False
    with Suc.prems have "sw' = sw"
      by (auto split: option.splits if_splits sum.splits)
    then have "length ([]::nat list) \<le> Suc n \<and> updates ext cfg X y [] sw = Inr sw'"
      by simp
    then show ?thesis by blast
  qed
qed

text \<open>
  Within one stage the score of a picked sample is exactly zero after its
  post-selection update, whatever the \<open>iterative\<close> flag (the configuration is
  arbitrary), and it is still zero after any further updates, whichever samples
  they pick.
\<close>

lemma stage_keeps_selected_zero:
  assumes "update_post_selection ext cfg w X y i s = Inr sw'"
  shows "i < length (pi_vec (fst sw')) \<and> pi_vec (fst sw') ! i = 0
     \<and> (\<forall>later sw''. updates ext cfg X y later sw' = Inr sw''
           \<longrightarrow> i < length (pi_vec (fst sw'')) \<and> pi_vec (fst sw'') ! i = 0)"
proof -
  from assms have "update_post_selection ext cfg w X y i s = Inr (fst sw', snd sw')"
    by simp
  note z = update_establishes_zero [OF this]
  have later: "i < length (pi_vec (fst sw'')) \<and> pi_vec (fst sw'') ! i = 0"
    if "updates ext cfg X y later sw' = Inr sw''" for later sw''
    using updates_keep_zero [OF that] z by blast
  from z later show ?thesis by blast
qed

text \<open>
  The loop of the skeleton is such a sequence of updates, so the score of a picked
  sample is zero after any number of further rounds.
\<close>

lemma loop_keeps_selected_zero:
  assumes "update_post_selection ext cfg w X y i s = Inr sw'"
    and "greedy_loop ext cfg X y n sw' = Inr sw''"
  shows "i < length (pi_vec (fst sw'')) \<and> pi_vec (fst sw'') ! i = 0"
proof -
  from assms(1) have "update_post_selection ext cfg w X y i s = Inr (fst sw', snd sw')"
    by simp
  note z = update_establishes_zero [OF this]
  from greedy_loop_updates [OF assms(2)] obtain picks where
    "updates ext cfg X y picks sw' = Inr sw''" by blast
  from updates_keep_zero [OF this] z show ?thesis by blast
qed

text \<open>
  C2: the claim is that the score of a selected sample stays zero at every later
  point of the run. A continued start breaks it: \<open>_continue_greedy_search\<close>
  assigns the scores of all rows anew and sets none to zero, where the
  post-selection update rewrites the eligible entries only and zeroes the pick.
  After an iterative fit that picked the samples 0 and 1, whose scores are zero,
  the working matrix of the continuation is zero, the decomposition returns a
  unit vector, and the score of the selected sample 0 is 1.
\<close>

theorem continued_start_rescores_selected:
  "init_greedy_search sample_ext default_cfg world0 X3 None 2
     = Inr (state0, world0\<lparr>global_rng := 1\<rparr>)
   \<and> updates sample_ext default_cfg X3 None [0, 1] (state0, world0\<lparr>global_rng := 1\<rparr>)
       = Inr (state2, world0\<lparr>global_rng := 3\<rparr>)
   \<and> selected_idx state2 = [0, 1] \<and> pi_vec state2 ! 0 = 0 \<and> pi_vec state2 ! 1 = 0
   \<and> map_sum id (\<lambda>sw. (X_current (fst sw), selected_idx (fst sw), eligible (fst sw),
                          pi_vec (fst sw)))
       (continue_greedy_search sample_ext default_cfg (world0\<lparr>global_rng := 3\<rparr>) X3 None 3
          state2)
     = Inr ([[0, 0], [0, 0], [0, 0]], [0, 1], [False, False, True], [1, 0, 0])"
proof -
  have c: "map_sum id (\<lambda>sw. (X_current (fst sw), selected_idx (fst sw), eligible (fst sw),
                               pi_vec (fst sw)))
       (continue_greedy_search sample_ext default_cfg (world0\<lparr>global_rng := 3\<rparr>) X3 None 3
          state2)
     = Inr ([[0, 0], [0, 0], [0, 0]], [0, 1], [False, False, True], [1, 0, 0])"
    by (simp add: run_defs state2_def)
  have u: "updates sample_ext default_cfg X3 None [0, 1] (state0, world0\<lparr>global_rng := 1\<rparr>)
       = Inr (state2, world0\<lparr>global_rng := 3\<rparr>)"
    using sample_update1 sample_update2 by simp
  from c u sample_init show ?thesis
    by (simp add: state2_def)
qed

text \<open>
  C4: with \<open>iterative\<close> false, a post-selection update leaves the working matrix and
  the working target as they are, does not draw from any generator, and changes the
  importance vector only by writing zero at the picked sample: every other entry is
  the same before and after.
\<close>

theorem non_iterative_update_frame:
  assumes "\<not> iterative cfg"
    and "update_post_selection ext cfg w X y last_selected s = Inr (s', w')"
  shows "X_current s' = X_current s \<and> y_current s' = y_current s
     \<and> last_selected < length (pi_vec s)
     \<and> pi_vec s' = (pi_vec s)[last_selected := 0]
     \<and> (\<forall>j. j \<noteq> last_selected \<longrightarrow> pi_vec s' ! j = pi_vec s ! j)
     \<and> w' = w"
proof -
  from update_post_selection_Inr [OF assms(2)] assms(1) obtain s1 where
    g: "GreedySelector_update_post_selection X y last_selected s = Inr s1"
    and b: "last_selected < length (pi_vec s1)"
    and s': "s' = s1\<lparr>pi_vec := (pi_vec s1)[last_selected := 0]\<rparr>"
    and w: "w' = w"
    by auto
  from GreedySelector_update_Inr [OF g] s' b w show ?thesis
    by simp
qed

theorem non_iterative_update_frame_witness:
  "\<not> iterative (default_cfg\<lparr>iterative := False\<rparr>)
   \<and> update_post_selection sample_ext (default_cfg\<lparr>iterative := False\<rparr>)
       (world0\<lparr>global_rng := 1\<rparr>) X3 None 0 state0
     = Inr (state0\<lparr>pi_vec := [0, 0, 0], eligible := [False, True, True],
               X_selected := [[1, 0]], selected_idx := [0], n_selected := 1\<rparr>,
            world0\<lparr>global_rng := 1\<rparr>)
   \<and> X_current (state0\<lparr>pi_vec := [0, 0, 0], eligible := [False, True, True],
               X_selected := [[1, 0]], selected_idx := [0], n_selected := 1\<rparr>) = X_current state0
   \<and> pi_vec (state0\<lparr>pi_vec := [0, 0, 0], eligible := [False, True, True],
               X_selected := [[1, 0]], selected_idx := [0], n_selected := 1\<rparr>)
       = (pi_vec state0)[0 := 0]"
  using non_iterative_update_frame [OF plain_cfg sample_update_plain] sample_update_plain
  by simp

subsection \<open>The score threshold\<close>

text \<open>
  C1: the claim is that a configured \<open>score_thresh_to_select\<close> stops the selection
  once the best remaining score is at or below it. The constructor hands
  \<open>tolerance\<close> to the skeleton in its place: constructed with the threshold \<open>0.5\<close>
  and the default tolerance, the instance holds the threshold \<open>1e-12\<close>, so that on
  four equal samples, whose scores are all \<open>0.25\<close>, the best score is below the
  configured threshold and above the one the skeleton was given.
\<close>

theorem score_threshold_argument_dropped:
  "score_threshold (CUR_init Half (Some (1 / 2)) False 1 tol12 Auto RS_None False) = Some tol12
   \<and> map_sum id (\<lambda>sw. pi_vec (fst sw))
        (init_greedy_search sample_ext (CUR_init Half (Some (1 / 2)) False 1 tol12 Auto RS_None False)
           world0 [[1 / 2], [1 / 2], [1 / 2], [1 / 2]] None 2)
       = Inr [1 / 4, 1 / 4, 1 / 4, 1 / 4]
   \<and> (1 / 4 :: real) \<le> 1 / 2 \<and> tol12 < 1 / 4"
  by (simp add: run_defs power2_eq_square)

text \<open>With the loop of the skeleton, the fit then selects two samples instead of none.\<close>

lemma sample_fit_below_threshold:
  "map_sum id (\<lambda>sw. selected_idx (fst sw))
     (fit sample_ext (CUR_init Half (Some (1 / 2)) False 1 tol12 Auto RS_None False)
        world0 [[1 / 2], [1 / 2], [1 / 2], [1 / 2]] None 2)
     = Inr [0, 1]"
  by (simp add: run_defs power2_eq_square numeral_2_eq_2)

subsection \<open>Length of the importance vector\<close>

lemma foldr_max_length:
  "foldr (\<lambda>xs. max (length xs)) A 0 = foldr max (map length A) (0::nat)"
  by (induction A) simp_all

lemma foldr_max_replicate: "foldr max (replicate m n) (0::nat) = (if m = 0 then 0 else n)"
  by (induction m) auto

lemma map_length_transpose_rectangular:
  assumes "rectangular m X" "X \<noteq> []"
  shows "map length (T X) = replicate m (length X)"
proof -
  have "transpose X = map (\<lambda>i. map (\<lambda>j. X ! j ! i) [0..<length X]) [0..<m]"
    using assms by (intro transpose_rectangle) (auto simp: rectangular_def list_all_length)
  then show ?thesis
    by (simp add: T_def o_def map_replicate_const)
qed

lemma length_T_orthogonalized:
  assumes "rectangular m X" "0 < m" "map length Xo = map length (T X)"
  shows "length (T Xo) = length X"
proof (cases "X = []")
  case True
  with assms(3) have "Xo = []" by (simp add: T_def)
  with True show ?thesis by (simp add: T_def)
next
  case False
  from map_length_transpose_rectangular [OF assms(1) False] assms(3)
  have "map length Xo = replicate m (length X)" by simp
  then have "foldr max (map length Xo) 0 = length X"
    using assms(2) foldr_max_replicate [of m "length X"] by simp
  then show ?thesis
    by (simp add: T_def length_transpose foldr_max_length)
qed

lemma init_greedy_search_Inr:
  assumes "init_greedy_search ext cfg w X y n = Inr (s, w')"
  shows "compute_pi ext cfg w X y = Inr (pi_vec s, w')
     \<and> X_current s = X \<and> y_current s = y
     \<and> eligible s = replicate (length X) True
     \<and> X_selected s = [] \<and> y_selected s = [] \<and> selected_idx s = [] \<and> n_selected s = 0"
  using assms
  by (auto simp: init_greedy_search_def bindE_Inr GreedySelector_init_greedy_search_def Let_def
      split: prod.splits option.splits)

lemma compute_pi_length:
  assumes "svd_keeps_rows ext" "compute_pi ext cfg w X y = Inr (p, w')"
  shows "length p = length X"
proof -
  from assms(2) obtain rs U r' where
    "randomized_svd ext rs X (k cfg) (iterated_power cfg) = Inr (U, r')"
    and "p = map (row_score (k cfg)) U"
    by (auto simp: compute_pi_def bindE_Inr split: prod.splits)
  with assms(1) show ?thesis
    unfolding svd_keeps_rows_def by (metis length_map)
qed

lemma continue_greedy_search_Inr:
  assumes "continue_greedy_search ext cfg w X y n s = Inr (s', w')"
  shows "\<exists>Xo yo.
      X_orthogonalizer ext (T X) None (Some (T (X_selected s))) None = Inr Xo
    \<and> orthogonalize_y ext (s\<lparr>X_current := T Xo\<rparr>) = Inr yo
    \<and> compute_pi ext cfg w (T Xo) yo = Inr (pi_vec s', w')
    \<and> s' = s\<lparr>X_current := T Xo, y_current := yo, pi_vec := pi_vec s'\<rparr>"
  using assms
  by (auto simp: continue_greedy_search_def bindE_Inr Let_def
      GreedySelector_continue_greedy_search_def split: prod.splits)

lemma update_post_selection_length:
  assumes "update_post_selection ext cfg w X y i s = Inr (s', w')"
  shows "length (pi_vec s') = length (pi_vec s)"
proof -
  from update_post_selection_Inr [OF assms] obtain s1 s2 where
    g: "GreedySelector_update_post_selection X y i s = Inr s1"
    and st: "if iterative cfg then orthogonalize_step ext cfg w i s1 = Inr (s2, w')
             else s2 = s1 \<and> w' = w"
    and s': "s' = s2\<lparr>pi_vec := (pi_vec s2)[i := 0]\<rparr>"
    by blast
  have "length (pi_vec s2) = length (pi_vec s1)"
  proof (cases "iterative cfg")
    case False
    with st show ?thesis by simp
  next
    case True
    with st have "orthogonalize_step ext cfg w i s1 = Inr (s2, w')" by simp
    from orthogonalize_step_Inr [OF this] obtain p where
      "mask_assign (pi_vec s1) (eligible s1) p = Inr (pi_vec s2)" by blast
    then show ?thesis by (rule mask_assign_length)
  qed
  with GreedySelector_update_Inr [OF g] s' show ?thesis by simp
qed

lemma updates_length:
  "updates ext cfg X y picks sw = Inr sw' \<Longrightarrow> length (pi_vec (fst sw')) = length (pi_vec (fst sw))"
proof (induction picks arbitrary: sw)
  case Nil
  then show ?case by simp
next
  case (Cons i picks)
  from Cons.prems obtain sw1 where
    u: "update_post_selection ext cfg (snd sw) X y i (fst sw) = Inr sw1"
    and r: "updates ext cfg X y picks sw1 = Inr sw'"
    by (auto split: sum.splits)
  from u have "update_post_selection ext cfg (snd sw) X y i (fst sw) = Inr (fst sw1, snd sw1)"
    by simp
  from update_post_selection_length [OF this] Cons.IH [OF r] show ?case by simp
qed

lemma greedy_loop_length:
  "greedy_loop ext cfg X y n sw = Inr sw' \<Longrightarrow> length (pi_vec (fst sw')) = length (pi_vec (fst sw))"
  using greedy_loop_updates updates_length by blast


lemma sample_svd_keeps_rows: "svd_keeps_rows sample_ext"
  by (auto simp: svd_keeps_rows_def sample_ext_def sample_svd_def split: list.splits if_splits)

lemma sample_orthogonalizer_keeps_shape: "orthogonalizer_keeps_shape sample_ext"
  by (auto simp: orthogonalizer_keeps_shape_def sample_ext_def sample_X_orthogonalizer_def
      bindE_Inr Let_def split: if_splits)

lemma sample_continue:
  "continue_greedy_search sample_ext default_cfg (world0\<lparr>global_rng := 2\<rparr>) X3 None 2 state1
     = Inr (state1\<lparr>pi_vec := [0, 0, 0]\<rparr>, world0\<lparr>global_rng := 3\<rparr>)"
  by (simp add: run_defs state1_def)

lemma sample_fit:
  "fit sample_ext default_cfg world0 X3 None 2 = Inr (state2, world0\<lparr>global_rng := 3\<rparr>)"
proof -
  have b: "best_eligible (pi_vec state0) (eligible state0) = Some 0"
    by (simp add: best_eligible_def state0_def)
  have t: "score_threshold default_cfg = Some tol12"
    by (simp add: default_cfg_def CUR_init_def)
  have p: "\<not> pi_vec state0 ! 0 \<le> tol12"
    by (simp add: state0_def tol12_def)
  have "greedy_loop sample_ext default_cfg X3 None 2 (state0, world0\<lparr>global_rng := 1\<rparr>)
          = Inr (state2, world0\<lparr>global_rng := 3\<rparr>)"
    using b t p sample_update1 sample_loop by (simp add: score_def numeral_2_eq_2)
  then show ?thesis
    by (simp add: fit_def sample_init bindE_def)
qed

lemma sample_rectangular: "rectangular 2 X3 \<and> (0::nat) < 2"
  by (simp add: rectangular_def X3_def)


text \<open>
  C7: the importance vector has one entry per sample of the input matrix. Given that
  the decomposition returns one row of \<open>U\<close> per row of its input and that the
  orthogonalizer keeps the shape of its argument, this holds after the
  initialization, after a continuation (on a matrix with a fixed, positive number
  of features), and it is kept by every post-selection update, so by any sequence
  of updates.
\<close>

theorem importance_vector_length:
  assumes "svd_keeps_rows ext" and "orthogonalizer_keeps_shape ext"
  shows "(init_greedy_search ext cfg w X y n = Inr (s0, w0) \<longrightarrow> length (pi_vec s0) = length X)
     \<and> (rectangular m X \<and> 0 < m \<and> continue_greedy_search ext cfg w X y n s = Inr (s1, w1)
          \<longrightarrow> length (pi_vec s1) = length X)
     \<and> (update_post_selection ext cfg w X y i s = Inr (s2, w2)
          \<longrightarrow> length (pi_vec s2) = length (pi_vec s))
     \<and> (updates ext cfg X y picks (s, w) = Inr (s3, w3)
          \<longrightarrow> length (pi_vec s3) = length (pi_vec s))"
proof -
  have a: "length (pi_vec s0) = length X"
    if "init_greedy_search ext cfg w X y n = Inr (s0, w0)" for s0 w0
    using init_greedy_search_Inr [OF that] compute_pi_length [OF assms(1)] by blast
  have b: "length (pi_vec s1) = length X"
    if r: "rectangular m X" "0 < m" and c: "continue_greedy_search ext cfg w X y n s = Inr (s1, w1)"
  proof -
    from continue_greedy_search_Inr [OF c] obtain Xo yo where
      o: "X_orthogonalizer ext (T X) None (Some (T (X_selected s))) None = Inr Xo"
      and p: "compute_pi ext cfg w (T Xo) yo = Inr (pi_vec s1, w1)"
      by blast
    from o assms(2) have "map length Xo = map length (T X)"
      unfolding orthogonalizer_keeps_shape_def by blast
    from length_T_orthogonalized [OF r this] compute_pi_length [OF assms(1) p]
    show ?thesis by simp
  qed
  have c: "length (pi_vec s2) = length (pi_vec s)"
    if "update_post_selection ext cfg w X y i s = Inr (s2, w2)"
    using update_post_selection_length [OF that] .
  have d: "length (pi_vec s3) = length (pi_vec s)"
    if "updates ext cfg X y picks (s, w) = Inr (s3, w3)"
    using updates_length [OF that] by simp
  from a b c d show ?thesis by blast
qed

text \<open>So the length is also kept by the loop of the skeleton, and a fit ends with it.\<close>

lemma fit_length:
  assumes "svd_keeps_rows ext" and "fit ext cfg w X y n = Inr (s, w')"
  shows "length (pi_vec s) = length X"
proof -
  from assms(2) obtain sw where i: "init_greedy_search ext cfg w X y n = Inr sw"
    and l: "greedy_loop ext cfg X y n sw = Inr (s, w')"
    by (auto simp: fit_def bindE_Inr)
  from i have "init_greedy_search ext cfg w X y n = Inr (fst sw, snd sw)" by simp
  from init_greedy_search_Inr [OF this] compute_pi_length [OF assms(1)]
  have "length (pi_vec (fst sw)) = length X" by blast
  with greedy_loop_length [OF l] show ?thesis by simp
qed

theorem importance_vector_length_witness:
  "init_greedy_search sample_ext default_cfg world0 X3 None 2
     = Inr (state0, world0\<lparr>global_rng := 1\<rparr>)
   \<and> length (pi_vec state0) = length X3
   \<and> rectangular 2 X3
   \<and> continue_greedy_search sample_ext default_cfg (world0\<lparr>global_rng := 2\<rparr>) X3 None 2 state1
       = Inr (state1\<lparr>pi_vec := [0, 0, 0]\<rparr>, world0\<lparr>global_rng := 3\<rparr>)
   \<and> length (pi_vec (state1\<lparr>pi_vec := [0, 0, 0]\<rparr>)) = length X3
   \<and> update_post_selection sample_ext default_cfg (world0\<lparr>global_rng := 1\<rparr>) X3 None 0 state0
       = Inr (state1, world0\<lparr>global_rng := 2\<rparr>)
   \<and> length (pi_vec state1) = length (pi_vec state0)
   \<and> updates sample_ext default_cfg X3 None [1] (state1, world0\<lparr>global_rng := 2\<rparr>)
       = Inr (state2, world0\<lparr>global_rng := 3\<rparr>)
   \<and> length (pi_vec state2) = length (pi_vec state1)"
  using importance_vector_length [OF sample_svd_keeps_rows sample_orthogonalizer_keeps_shape,
      of default_cfg world0 X3 None 2 state0 "world0\<lparr>global_rng := 1\<rparr>"]
    sample_init sample_continue sample_update1 sample_updates sample_rectangular
  by (simp add: state0_def state1_def state2_def X3_def)

subsection \<open>Reproducibility\<close>

lemma in_world_simps [simp]:
  "in_world w (Inl e) = Inl e" "in_world w (Inr sw) = Inr (fst sw, w)"
  by (simp_all add: in_world_def)

lemma in_world_bindE:
  "in_world w (bindE m f) = bindE m (\<lambda>x. in_world w (f x))"
  by (cases m) (simp_all add: bindE_def)

lemma compute_pi_seeded:
  assumes "random_state cfg = RS_Int seed"
  shows "compute_pi ext cfg w X y = in_world w (compute_pi ext cfg w' X y)"
  using assms
  by (auto simp: compute_pi_def check_random_state_def put_random_state_def bindE_def Let_def
      split: sum.splits)

lemma orthogonalize_step_seeded:
  assumes "random_state cfg = RS_Int seed"
  shows "orthogonalize_step ext cfg w i s = in_world w (orthogonalize_step ext cfg w' i s)"
  unfolding orthogonalize_step_def Let_def in_world_bindE
  apply (subst compute_pi_seeded [OF assms, of ext w _ _ w'])
  apply (auto simp: bindE_def split: sum.splits option.splits prod.splits)
  done

lemma update_post_selection_seeded:
  assumes "random_state cfg = RS_Int seed"
  shows "update_post_selection ext cfg w X y i s
           = in_world w (update_post_selection ext cfg w' X y i s)"
  unfolding update_post_selection_def in_world_bindE
  apply (subst orthogonalize_step_seeded [OF assms, of ext w _ _ w'])
  apply (auto simp: bindE_def split: sum.splits option.splits prod.splits)
  done

lemma greedy_loop_seeded:
  assumes "random_state cfg = RS_Int seed"
  shows "greedy_loop ext cfg X y n (s, w) = in_world w (greedy_loop ext cfg X y n (s, w'))"
proof (induction n arbitrary: s)
  case 0
  show ?case by simp
next
  case (Suc n)
  show ?case
  proof (cases "best_eligible (score s X y) (eligible s)")
    case None
    then show ?thesis by simp
  next
    case (Some i)
    show ?thesis
    proof (cases "case score_threshold cfg of None \<Rightarrow> False | Some t \<Rightarrow> score s X y ! i \<le> t")
      case True
      with Some show ?thesis by (simp split: option.splits)
    next
      case False
      show ?thesis
      proof (cases "update_post_selection ext cfg w' X y i s")
        case (Inl e)
        with update_post_selection_seeded [OF assms, of ext w X y i s w'] Some False
        show ?thesis by (simp split: option.splits)
      next
        case (Inr sw1)
        then have u': "update_post_selection ext cfg w' X y i s = Inr (fst sw1, snd sw1)" by simp
        with update_post_selection_seeded [OF assms, of ext w X y i s w']
        have u: "update_post_selection ext cfg w X y i s = Inr (fst sw1, w)" by simp
        have "greedy_loop ext cfg X y n (fst sw1, w)
                = in_world w (greedy_loop ext cfg X y n (fst sw1, w'))"
          by (rule Suc.IH)
        moreover have "in_world w (greedy_loop ext cfg X y n (fst sw1, w'))
                = in_world w (greedy_loop ext cfg X y n (fst sw1, snd sw1))"
        proof -
          have "snd sw1 = w'"
            using update_post_selection_seeded [OF assms, of ext w' X y i s w'] u'
            by (cases sw1) simp
          then show ?thesis by simp
        qed
        ultimately show ?thesis
          using Some False u u' by (simp split: option.splits)
      qed
    qed
  qed
qed

lemma init_greedy_search_seeded:
  assumes "random_state cfg = RS_Int seed"
  shows "init_greedy_search ext cfg w X y n = in_world w (init_greedy_search ext cfg w' X y n)"
  unfolding init_greedy_search_def Let_def in_world_bindE
  apply (subst compute_pi_seeded [OF assms, of ext w _ _ w'])
  apply (auto simp: bindE_def split: sum.splits option.splits prod.splits)
  done

lemma fit_seeded:
  assumes "random_state cfg = RS_Int seed"
  shows "fit ext cfg w X y n = in_world w (fit ext cfg w' X y n)"
proof (cases "init_greedy_search ext cfg w' X y n")
  case (Inl e)
  with init_greedy_search_seeded [OF assms, of ext w X y n w'] show ?thesis
    by (simp add: fit_def bindE_def)
next
  case (Inr sw)
  then have i': "init_greedy_search ext cfg w' X y n = Inr (fst sw, snd sw)" by simp
  with init_greedy_search_seeded [OF assms, of ext w X y n w']
  have i: "init_greedy_search ext cfg w X y n = Inr (fst sw, w)" by simp
  from init_greedy_search_seeded [OF assms, of ext w' X y n w'] i'
  have "snd sw = w'" by (cases sw) simp
  with i i' greedy_loop_seeded [OF assms, of ext X y n "fst sw" w w'] show ?thesis
    by (simp add: fit_def bindE_def)
qed

lemma seeded_cfg: "random_state (default_cfg\<lparr>random_state := RS_Int 0\<rparr>) = RS_Int 0"
  by simp

lemma sample_fit_seeded:
  "map_sum id (\<lambda>sw. selected_idx (fst sw))
     (fit sample_ext (default_cfg\<lparr>random_state := RS_Int 0\<rparr>) world0 X3 None 2) = Inr [0]"
  by (simp add: run_defs numeral_2_eq_2)

text \<open>
  C6, as the code has it: with an integer \<open>random_state\<close>, every importance
  computation starts from a new generator made from that seed, so two fits with the
  same matrix, target and configuration give the same result (the same attributes,
  so the same selected indices in the same order, or the same error), whatever the
  state of the generators outside the instance.
\<close>

theorem seeded_runs_agree:
  assumes "random_state cfg = RS_Int seed"
  shows "map_sum id fst (fit ext cfg w1 X y n) = map_sum id fst (fit ext cfg w2 X y n)"
proof -
  have "fit ext cfg w1 X y n = in_world w1 (fit ext cfg w2 X y n)"
    by (rule fit_seeded [OF assms])
  then show ?thesis
    by (cases "fit ext cfg w2 X y n") (auto simp: in_world_def)
qed

theorem seeded_runs_agree_witness:
  "random_state (default_cfg\<lparr>random_state := RS_Int 0\<rparr>) = RS_Int 0
   \<and> map_sum id (\<lambda>sw. selected_idx (fst sw))
        (fit sample_ext (default_cfg\<lparr>random_state := RS_Int 0\<rparr>) world0 X3 None 2) = Inr [0]
   \<and> map_sum id fst (fit sample_ext (default_cfg\<lparr>random_state := RS_Int 0\<rparr>) world0 X3 None 2)
       = map_sum id fst (fit sample_ext (default_cfg\<lparr>random_state := RS_Int 0\<rparr>)
                           (world0\<lparr>global_rng := 1\<rparr>) X3 None 2)"
  using seeded_runs_agree [OF seeded_cfg, of sample_ext world0 X3 None 2 "world0\<lparr>global_rng := 1\<rparr>"]
    sample_fit_seeded
  by simp

text \<open>
  C6, as stated, fails when \<open>random_state\<close> is \<open>None\<close>: the decomposition then draws
  from numpy's global generator, which the first run leaves advanced. On the identity
  matrix, whose two singular values are equal, the first fit scores the samples
  \<open>[1, 0]\<close> and selects sample 0, and a second fit with the same arguments,
  started where the first left the generator, scores them \<open>[0, 1]\<close> and selects
  sample 1.
\<close>

theorem unseeded_runs_differ:
  "map_sum id (\<lambda>sw. (pi_vec (fst sw), snd sw))
     (init_greedy_search sample_ext (CUR_init Half None False 1 tol12 Auto RS_None False)
        world0 I2 None 1)
     = Inr ([1, 0], world0\<lparr>global_rng := 1\<rparr>)
   \<and> map_sum id (\<lambda>sw. pi_vec (fst sw))
       (init_greedy_search sample_ext (CUR_init Half None False 1 tol12 Auto RS_None False)
          (world0\<lparr>global_rng := 1\<rparr>) I2 None 1)
     = Inr [0, 1]
   \<and> map_sum id (\<lambda>sw. (selected_idx (fst sw), snd sw))
       (fit sample_ext (CUR_init Half None False 1 tol12 Auto RS_None False) world0 I2 None 1)
     = Inr ([0], world0\<lparr>global_rng := 1\<rparr>)
   \<and> map_sum id (\<lambda>sw. selected_idx (fst sw))
       (fit sample_ext (CUR_init Half None False 1 tol12 Auto RS_None False)
          (world0\<lparr>global_rng := 1\<rparr>) I2 None 1)
     = Inr [1]"
  by (simp add: run_defs I2_def)

subsection \<open>The rank is not checked\<close>

text \<open>
  C9, as stated, fails: nothing in the class looks at \<open>k\<close> before the decomposition
  is called with it. Where the library routine accepts a request for no components,
  the fit-time initialization with \<open>k = 0\<close> returns without an error, after the
  decomposition has run (the generator has advanced), with all scores zero.
\<close>

theorem rank_zero_fit_returns:
  "map_sum id (\<lambda>sw. (pi_vec (fst sw), snd sw))
     (init_greedy_search sample_ext (CUR_init Half None True 0 tol12 Auto RS_None False)
        world0 X3 None 2)
     = Inr ([0, 0, 0], world0\<lparr>global_rng := 1\<rparr>)"
  by (simp add: run_defs)

text \<open>With the loop of the skeleton, the whole fit returns, with nothing selected.\<close>

lemma sample_fit_rank_zero:
  "map_sum id (\<lambda>sw. (pi_vec (fst sw), selected_idx (fst sw), snd sw))
     (fit sample_ext (CUR_init Half None True 0 tol12 Auto RS_None False) world0 X3 None 2)
     = Inr ([0, 0, 0], [], world0\<lparr>global_rng := 1\<rparr>)"
  by (simp add: run_defs numeral_2_eq_2)

text \<open>
  Where the library routine validates its arguments, the error of a fit with
  \<open>k = 0\<close> is the one that routine raises when the importance computation calls it.
\<close>

lemma strict_rank_zero_fails_in_decomposition:
  "randomized_svd strict_ext 0 X3 0 Auto = Inl ExternalError
   \<and> compute_pi strict_ext (CUR_init Half None True 0 tol12 Auto RS_None False) world0 X3 None
       = Inl ExternalError
   \<and> init_greedy_search strict_ext (CUR_init Half None True 0 tol12 Auto RS_None False)
        world0 X3 None 2
       = Inl ExternalError"
  by (simp add: run_defs strict_ext_def strict_svd_def)

text \<open>
  C9, as the code has it: the fit-time initialization fails exactly when its
  importance computation fails, that is when the seed is refused, which does not
  depend on \<open>k\<close>, or when the decomposition, called with \<open>k\<close> as it was configured
  and whatever its sign, fails; the error is theirs.
\<close>

theorem rank_reaches_decomposition_unchecked:
  "(init_greedy_search ext cfg w X y n = Inl e
      \<longleftrightarrow> check_random_state ext (random_state cfg) w = Inl e
          \<or> (\<exists>rs. check_random_state ext (random_state cfg) w = Inr rs
                \<and> randomized_svd ext rs X (k cfg) (iterated_power cfg) = Inl e))
   \<and> check_random_state ext (random_state (cfg\<lparr>k := k'\<rparr>)) w
       = check_random_state ext (random_state cfg) w"
  by (auto simp: init_greedy_search_def compute_pi_def bindE_def Let_def
      split: sum.splits prod.splits option.splits)

subsection \<open>Rounds of the loop\<close>

text \<open>
  A loop of \<open>n + 1\<close> rounds is the loop of \<open>n\<close> rounds followed by one more round:
  what holds at the end of a loop of any length holds after every round of a longer
  one.
\<close>

lemma greedy_loop_one_more:
  "greedy_loop ext cfg X y (Suc n) sw
     = bindE (greedy_loop ext cfg X y n sw) (greedy_loop ext cfg X y (Suc 0))"
proof (induction n arbitrary: sw)
  case 0
  show ?case by (simp add: bindE_def)
next
  case (Suc n)
  show ?case
  proof (cases "best_eligible (score (fst sw) X y) (eligible (fst sw))")
    case None
    then show ?thesis by (simp add: bindE_def)
  next
    case (Some i)
    show ?thesis
    proof (cases "case score_threshold cfg of None \<Rightarrow> False
                    | Some t \<Rightarrow> score (fst sw) X y ! i \<le> t")
      case True
      with Some show ?thesis by (simp add: bindE_def)
    next
      case False
      show ?thesis
      proof (cases "update_post_selection ext cfg (snd sw) X y i (fst sw)")
        case (Inl e)
        with Some False show ?thesis by (simp add: bindE_def)
      next
        case (Inr sw1)
        have "greedy_loop ext cfg X y (Suc (Suc n)) sw = greedy_loop ext cfg X y (Suc n) sw1"
          using Some False Inr by simp
        also have "\<dots> = bindE (greedy_loop ext cfg X y n sw1) (greedy_loop ext cfg X y (Suc 0))"
          by (rule Suc.IH)
        also have "greedy_loop ext cfg X y n sw1 = greedy_loop ext cfg X y (Suc n) sw"
          using Some False Inr by simp
        finally show ?thesis .
      qed
    qed
  qed
qed

subsection \<open>The target does not steer the selection\<close>

lemma init_same_but_targets:
  assumes "init_greedy_search ext cfg w X y1 n = Inr (s1, w1)"
    and "init_greedy_search ext cfg w X y2 n = Inr (s2, w2)"
  shows "same_but_targets s1 s2 \<and> w1 = w2"
proof -
  note a = init_greedy_search_Inr [OF assms(1)] and b = init_greedy_search_Inr [OF assms(2)]
  from a b compute_pi_ignores_y [of ext cfg w X y1] compute_pi_ignores_y [of ext cfg w X y2]
  have "pi_vec s1 = pi_vec s2 \<and> w1 = w2" by simp
  with a b show ?thesis by (simp add: same_but_targets_def)
qed

lemma update_same_but_targets:
  assumes r: "same_but_targets s1 s2"
    and u1: "update_post_selection ext cfg w X y1 i s1 = Inr (s1', w1)"
    and u2: "update_post_selection ext cfg w X y2 i s2 = Inr (s2', w2)"
  shows "same_but_targets s1' s2' \<and> w1 = w2"
proof -
  from update_post_selection_Inr [OF u1] obtain a1 b1 where
    g1: "GreedySelector_update_post_selection X y1 i s1 = Inr a1"
    and st1: "if iterative cfg then orthogonalize_step ext cfg w i a1 = Inr (b1, w1)
              else b1 = a1 \<and> w1 = w"
    and e1: "s1' = b1\<lparr>pi_vec := (pi_vec b1)[i := 0]\<rparr>"
    by blast
  from update_post_selection_Inr [OF u2] obtain a2 b2 where
    g2: "GreedySelector_update_post_selection X y2 i s2 = Inr a2"
    and st2: "if iterative cfg then orthogonalize_step ext cfg w i a2 = Inr (b2, w2)
              else b2 = a2 \<and> w2 = w"
    and e2: "s2' = b2\<lparr>pi_vec := (pi_vec b2)[i := 0]\<rparr>"
    by blast
  from GreedySelector_update_Inr [OF g1] GreedySelector_update_Inr [OF g2] r
  have ra: "same_but_targets a1 a2"
    by (simp add: same_but_targets_def)
  have rb: "same_but_targets b1 b2 \<and> w1 = w2"
  proof (cases "iterative cfg")
    case False
    with st1 st2 ra show ?thesis by simp
  next
    case True
    with st1 have o1: "orthogonalize_step ext cfg w i a1 = Inr (b1, w1)" by simp
    from True st2 have o2: "orthogonalize_step ext cfg w i a2 = Inr (b2, w2)" by simp
    from orthogonalize_step_Inr [OF o1] obtain yo1 Xo1 Xe1 p1 where
      x1: "X_orthogonalizer ext (T (X_current a1)) (Some i) None (Some tol12) = Inr Xo1"
      and m1: "mask_select (T Xo1) (eligible a1) = Inr Xe1"
      and c1: "compute_pi ext cfg w Xe1 None = Inr (p1, w1)"
      and q1: "mask_assign (pi_vec a1) (eligible a1) p1 = Inr (pi_vec b1)"
      and f1: "b1 = a1\<lparr>y_current := yo1, X_current := T Xo1, pi_vec := pi_vec b1\<rparr>"
      by blast
    from orthogonalize_step_Inr [OF o2] obtain yo2 Xo2 Xe2 p2 where
      x2: "X_orthogonalizer ext (T (X_current a2)) (Some i) None (Some tol12) = Inr Xo2"
      and m2: "mask_select (T Xo2) (eligible a2) = Inr Xe2"
      and c2: "compute_pi ext cfg w Xe2 None = Inr (p2, w2)"
      and q2: "mask_assign (pi_vec a2) (eligible a2) p2 = Inr (pi_vec b2)"
      and f2: "b2 = a2\<lparr>y_current := yo2, X_current := T Xo2, pi_vec := pi_vec b2\<rparr>"
      by blast
    from ra have eq: "X_current a1 = X_current a2" "eligible a1 = eligible a2"
      "pi_vec a1 = pi_vec a2" "X_selected a1 = X_selected a2"
      "selected_idx a1 = selected_idx a2" "n_selected a1 = n_selected a2"
      by (simp_all add: same_but_targets_def)
    from x1 x2 eq have Xo: "Xo1 = Xo2" by simp
    with m1 m2 eq have "Xe1 = Xe2" by simp
    with c1 c2 have pw: "p1 = p2" "w1 = w2" by simp_all
    with q1 q2 eq have pv: "pi_vec b1 = pi_vec b2" by simp
    have "X_current b1 = X_current b2" "eligible b1 = eligible b2"
      "X_selected b1 = X_selected b2" "selected_idx b1 = selected_idx b2"
      "n_selected b1 = n_selected b2"
      using eq Xo by (subst f1, subst f2, simp)+
    with pv pw show ?thesis by (simp add: same_but_targets_def)
  qed
  with e1 e2 show ?thesis by (simp add: same_but_targets_def)
qed

lemma greedy_loop_same_but_targets:
  assumes "same_but_targets s1 s2"
    and "greedy_loop ext cfg X y1 n (s1, w) = Inr (s1', w1)"
    and "greedy_loop ext cfg X y2 n (s2, w) = Inr (s2', w2)"
  shows "same_but_targets s1' s2' \<and> w1 = w2"
  using assms
proof (induction n arbitrary: s1 s2 w)
  case 0
  then show ?case by simp
next
  case (Suc n)
  from Suc.prems(1) have eq: "pi_vec s1 = pi_vec s2" "eligible s1 = eligible s2"
    by (simp_all add: same_but_targets_def)
  show ?case
  proof (cases "best_eligible (pi_vec s2) (eligible s2)")
    case None
    with Suc.prems eq show ?thesis by (simp add: score_def)
  next
    case (Some i)
    show ?thesis
    proof (cases "case score_threshold cfg of None \<Rightarrow> False | Some t \<Rightarrow> pi_vec s2 ! i \<le> t")
      case True
      with Some Suc.prems eq show ?thesis by (simp add: score_def split: option.splits)
    next
      case False
      with Some Suc.prems(2) eq obtain a1 v1 where
        u1: "update_post_selection ext cfg w X y1 i s1 = Inr (a1, v1)"
        and l1: "greedy_loop ext cfg X y1 n (a1, v1) = Inr (s1', w1)"
        by (auto simp: score_def split: option.splits sum.splits)
      from False Some Suc.prems(3) obtain a2 v2 where
        u2: "update_post_selection ext cfg w X y2 i s2 = Inr (a2, v2)"
        and l2: "greedy_loop ext cfg X y2 n (a2, v2) = Inr (s2', w2)"
        by (auto simp: score_def split: option.splits sum.splits)
      from update_same_but_targets [OF Suc.prems(1) u1 u2]
      have "same_but_targets a1 a2" "v1 = v2" by simp_all
      with Suc.IH [of a1 a2 v1] l1 l2 show ?thesis by simp
    qed
  qed
qed

lemma sample_fit_target:
  "fit sample_ext default_cfg world0 X3 (Some y3) 1
   = Inr (state1\<lparr>y_current := Some [[0], [4], [5]], y_selected := [[3]]\<rparr>,
          world0\<lparr>global_rng := 2\<rparr>)"
  by (simp add: run_defs state1_def)

lemma sample_fit_no_target:
  "fit sample_ext default_cfg world0 X3 None 1 = Inr (state1, world0\<lparr>global_rng := 2\<rparr>)"
  by (simp add: run_defs state1_def)

text \<open>
  C10: two fits that differ only in the target (two targets, or a target and none)
  and both return end with the same importance vector, the same selected indices
  in the same order, the same working matrix, eligibility and selected rows, and
  the same generator state; the scoring callback returns the same scores. The
  number of rounds is arbitrary, so this holds after every round. Only the working
  target and the selected targets can differ.
\<close>

theorem target_does_not_influence_selection:
  assumes "fit ext cfg w X y1 n = Inr (s1, w1)"
    and "fit ext cfg w X y2 n = Inr (s2, w2)"
  shows "pi_vec s1 = pi_vec s2 \<and> selected_idx s1 = selected_idx s2
     \<and> X_current s1 = X_current s2 \<and> eligible s1 = eligible s2
     \<and> X_selected s1 = X_selected s2 \<and> score s1 X y1 = score s2 X y2 \<and> w1 = w2"
proof -
  from assms(1) obtain a1 v1 where
    i1: "init_greedy_search ext cfg w X y1 n = Inr (a1, v1)"
    and l1: "greedy_loop ext cfg X y1 n (a1, v1) = Inr (s1, w1)"
    by (auto simp: fit_def bindE_Inr)
  from assms(2) obtain a2 v2 where
    i2: "init_greedy_search ext cfg w X y2 n = Inr (a2, v2)"
    and l2: "greedy_loop ext cfg X y2 n (a2, v2) = Inr (s2, w2)"
    by (auto simp: fit_def bindE_Inr)
  from init_same_but_targets [OF i1 i2] have "same_but_targets a1 a2" "v1 = v2"
    by simp_all
  with greedy_loop_same_but_targets [of a1 a2 ext cfg X y1 n v1 s1 w1 y2 s2 w2] l1 l2
  show ?thesis by (simp add: same_but_targets_def score_def)
qed

theorem target_does_not_influence_selection_witness:
  "fit sample_ext default_cfg world0 X3 (Some y3) 1
     = Inr (state1\<lparr>y_current := Some [[0], [4], [5]], y_selected := [[3]]\<rparr>,
            world0\<lparr>global_rng := 2\<rparr>)
   \<and> fit sample_ext default_cfg world0 X3 None 1 = Inr (state1, world0\<lparr>global_rng := 2\<rparr>)
   \<and> pi_vec (state1\<lparr>y_current := Some [[0], [4], [5]], y_selected := [[3]]\<rparr>) = pi_vec state1
   \<and> selected_idx (state1\<lparr>y_current := Some [[0], [4], [5]], y_selected := [[3]]\<rparr>)
       = selected_idx state1"
  using target_does_not_influence_selection [OF sample_fit_target sample_fit_no_target]
    sample_fit_target sample_fit_no_target
  by simp

subsection \<open>Continued start\<close>

lemma sample_update_plain_target:
  "update_post_selection sample_ext (default_cfg\<lparr>iterative := False\<rparr>)
       (world0\<lparr>global_rng := 1\<rparr>) X3 (Some y3) 0 (state0\<lparr>y_current := Some y3\<rparr>)
     = Inr (state1_plain, world0\<lparr>global_rng := 1\<rparr>)"
  by (simp add: run_defs state0_def state1_plain_def)

text \<open>
  C3: the claim is that a continued start regresses the contribution of the selected
  rows out of the target. \<open>_continue_greedy_search\<close> orthogonalizes the working
  matrix first and then hands that matrix to \<open>Y_sample_orthogonalizer\<close>, whose
  prediction from rows orthogonal to the selected ones is zero; the
  post-selection update makes the two calls in the other order. After a first
  stage without iteration that picked sample 0, the continuation leaves the
  working target \<open>[[3], [4], [5]]\<close> as it was, while the update of an iterative
  stage at the same pick regresses it to \<open>[[0], [4], [5]]\<close>.
\<close>

theorem continued_start_leaves_target:
  "update_post_selection sample_ext (default_cfg\<lparr>iterative := False\<rparr>)
       (world0\<lparr>global_rng := 1\<rparr>) X3 (Some y3) 0 (state0\<lparr>y_current := Some y3\<rparr>)
     = Inr (state1_plain, world0\<lparr>global_rng := 1\<rparr>)
   \<and> map_sum id (\<lambda>sw. (X_current (fst sw), y_current (fst sw)))
       (continue_greedy_search sample_ext (default_cfg\<lparr>iterative := False\<rparr>)
          (world0\<lparr>global_rng := 1\<rparr>) X3 (Some y3) 2 state1_plain)
     = Inr ([[0, 0], [0, 1], [0, 0]], Some [[3], [4], [5]])
   \<and> map_sum id (\<lambda>sw. (X_current (fst sw), y_current (fst sw)))
       (update_post_selection sample_ext default_cfg (world0\<lparr>global_rng := 1\<rparr>) X3 (Some y3) 0
          (state0\<lparr>y_current := Some y3\<rparr>))
     = Inr ([[0, 0], [0, 1], [0, 0]], Some [[0], [4], [5]])"
proof -
  have c: "map_sum id (\<lambda>sw. (X_current (fst sw), y_current (fst sw)))
       (continue_greedy_search sample_ext (default_cfg\<lparr>iterative := False\<rparr>)
          (world0\<lparr>global_rng := 1\<rparr>) X3 (Some y3) 2 state1_plain)
     = Inr ([[0, 0], [0, 1], [0, 0]], Some [[3], [4], [5]])"
    by (simp add: run_defs state1_plain_def)
  have u: "map_sum id (\<lambda>sw. (X_current (fst sw), y_current (fst sw)))
       (update_post_selection sample_ext default_cfg (world0\<lparr>global_rng := 1\<rparr>) X3 (Some y3) 0
          (state0\<lparr>y_current := Some y3\<rparr>))
     = Inr ([[0, 0], [0, 1], [0, 0]], Some [[0], [4], [5]])"
    by (simp add: run_defs state0_def)
  from c u sample_update_plain_target show ?thesis by simp
qed

text \<open>
  Whatever the library calls are, a continuation that returns has called
  \<open>Y_sample_orthogonalizer\<close>, if at all, with the working matrix it has just
  orthogonalized.
\<close>

lemma continue_greedy_search_target_call:
  assumes "continue_greedy_search ext cfg w X y n s = Inr (s', w')"
  shows "\<exists>Xo. X_orthogonalizer ext (T X) None (Some (T (X_selected s))) None = Inr Xo
           \<and> X_current s' = T Xo
           \<and> (case y_current s of
                 None \<Rightarrow> y_current s' = None
               | Some yc \<Rightarrow>
                   \<exists>yo. Y_sample_orthogonalizer ext yc (T Xo) (y_selected s) (X_selected s)
                          (1 / 10 ^ 12) = Inr yo
                        \<and> y_current s' = Some yo)"
proof -
  from continue_greedy_search_Inr [OF assms] obtain Xo yo where
    o: "X_orthogonalizer ext (T X) None (Some (T (X_selected s))) None = Inr Xo"
    and y: "orthogonalize_y ext (s\<lparr>X_current := T Xo\<rparr>) = Inr yo"
    and s': "s' = s\<lparr>X_current := T Xo, y_current := yo, pi_vec := pi_vec s'\<rparr>"
    by blast
  from s' have xs: "X_current s' = T Xo" and ys: "y_current s' = yo"
    by (metis cur_state.select_convs(1) cur_state.surjective cur_state.update_convs(1,2,3),
        metis cur_state.select_convs(2) cur_state.surjective cur_state.update_convs(1,2,3))
  from y have "case y_current s of
                 None \<Rightarrow> yo = None
               | Some yc \<Rightarrow>
                   \<exists>yo'. Y_sample_orthogonalizer ext yc (T Xo) (y_selected s) (X_selected s)
                          (1 / 10 ^ 12) = Inr yo' \<and> yo = Some yo'"
    by (auto simp: orthogonalize_y_def bindE_Inr tol12_def split: option.splits)
  with o xs ys show ?thesis
    by (auto split: option.splits)
qed

subsection \<open>Fresh start\<close>

lemma init_greedy_search_refs_Inr:
  assumes "X < next_free st"
    and "case y of None \<Rightarrow> True | Some ya \<Rightarrow> ya < next_free st"
    and "init_greedy_search_refs ext cfg w st X y n = Inr (xc, yc, st', s, w')"
  shows "xc = next_free st
     \<and> yc = (case y of None \<Rightarrow> None | Some ya \<Rightarrow> Some (Suc (next_free st)))
     \<and> arrays st' = (case y of None \<Rightarrow> (arrays st)(next_free st := arrays st X)
                      | Some ya \<Rightarrow> (arrays st)(next_free st := arrays st X,
                                                Suc (next_free st) := arrays st ya))
     \<and> init_greedy_search ext cfg w (arrays st X) (map_option (arrays st) y) n = Inr (s, w')"
  using assms
  by (cases y)
    (auto simp: init_greedy_search_refs_def init_greedy_search_def np_copy_def bindE_Inr Let_def
      GreedySelector_init_greedy_search_def split: prod.splits)

lemma sample_init_refs:
  "init_greedy_search_refs sample_ext default_cfg world0 store0 0 (Some 1) 2
     = Inr (2, Some 3,
            store0\<lparr>arrays := (arrays store0)(2 := X3, 3 := y3), next_free := 4\<rparr>,
            state0\<lparr>y_current := Some y3\<rparr>, world0\<lparr>global_rng := 1\<rparr>)"
  by (simp add: init_greedy_search_refs_def np_copy_def store0_def Let_def run_defs state0_def
      eval_nat_numeral)

lemma sample_live: "(0::nat) < next_free store0"
  "case Some (1::nat) of None \<Rightarrow> True | Some ya \<Rightarrow> ya < next_free store0"
  by (simp_all add: store0_def)

text \<open>
  C8: on a fresh start with live input arrays, the working matrix is a new array
  (its address was not in use, so it differs from the caller's) with the entries of
  the input; no array of the caller changes, and overwriting the working matrix
  leaves the input as it was. The same holds for the target when one is given, and
  there is no working target otherwise. The importance vector is the one computed
  on the whole working matrix, and at that point every sample is eligible and
  nothing is selected.
\<close>

theorem fresh_start_copies_input:
  assumes "X < next_free st"
    and "case y of None \<Rightarrow> True | Some ya \<Rightarrow> ya < next_free st"
    and "init_greedy_search_refs ext cfg w st X y n = Inr (xc, yc, st', s, w')"
  shows "arrays st' xc = arrays st X \<and> X_current s = arrays st' xc
     \<and> xc \<noteq> X \<and> next_free st \<le> xc
     \<and> (\<forall>a. a < next_free st \<longrightarrow> arrays st' a = arrays st a)
     \<and> (\<forall>M. ((arrays st')(xc := M)) X = arrays st X)
     \<and> (case y of
           None \<Rightarrow> yc = None \<and> y_current s = None
         | Some ya \<Rightarrow>
             \<exists>b. yc = Some b \<and> b \<noteq> ya \<and> b \<noteq> X \<and> next_free st \<le> b
                \<and> arrays st' b = arrays st ya \<and> y_current s = Some (arrays st' b)
                \<and> (\<forall>M. ((arrays st')(b := M)) ya = arrays st ya))
     \<and> compute_pi ext cfg w (X_current s) (y_current s) = Inr (pi_vec s, w')
     \<and> eligible s = replicate (length (arrays st X)) True
     \<and> selected_idx s = [] \<and> n_selected s = 0"
proof -
  note r = init_greedy_search_refs_Inr [OF assms]
  then have i: "init_greedy_search ext cfg w (arrays st X) (map_option (arrays st) y) n = Inr (s, w')"
    by simp
  note v = init_greedy_search_Inr [OF i]
  from r have xc: "xc = next_free st" by simp
  show ?thesis
  proof (cases y)
    case None
    with r v assms(1) xc show ?thesis by auto
  next
    case (Some ya)
    with assms(2) have "ya < next_free st" by simp
    with Some r v assms(1) xc show ?thesis by auto
  qed
qed

theorem fresh_start_copies_input_witness:
  "(0::nat) < next_free store0 \<and> (1::nat) < next_free store0
   \<and> init_greedy_search_refs sample_ext default_cfg world0 store0 0 (Some 1) 2
     = Inr (2, Some 3,
            store0\<lparr>arrays := (arrays store0)(2 := X3, 3 := y3), next_free := 4\<rparr>,
            state0\<lparr>y_current := Some y3\<rparr>, world0\<lparr>global_rng := 1\<rparr>)
   \<and> arrays (store0\<lparr>arrays := (arrays store0)(2 := X3, 3 := y3), next_free := 4\<rparr>) 2
       = arrays store0 0
   \<and> X_current (state0\<lparr>y_current := Some y3\<rparr>) = X3
   \<and> pi_vec (state0\<lparr>y_current := Some y3\<rparr>) = [1, 0, 0]"
  using fresh_start_copies_input [OF sample_live sample_init_refs] sample_init_refs sample_live
  by (simp add: store0_def state0_def)

end
